theory Spec2Isabelle
  imports Complex_Main "HOL-Library.Multiset"
begin

section \<open>Python values and exceptions\<close>

text \<open>
  The module \<^verbatim>\<open>obssim.py\<close> is Python 2 code. Every place where the interpreter raises
  is a branch of the model that returns \<open>Inl\<close> with the exception; a normal result is
  \<open>Inr\<close>. Python floats are idealised as real numbers.
\<close>

datatype pyerror =
    LookupError string
  | KeyError string
  | IndexError string
  | ValueError string
  | TypeError string
  | UnboundLocalError string
  | NotImplementedError string
  | ExternalError string

text \<open>The class test a caller would make with \<^verbatim>\<open>except NotImplementedError\<close>.\<close>

fun is_NotImplementedError :: "pyerror \<Rightarrow> bool" where
  "is_NotImplementedError (NotImplementedError m) = True"
| "is_NotImplementedError e = False"

text \<open>Python's \<^verbatim>\<open>p in s\<close> on strings: \<open>p\<close> occurs as a contiguous substring of \<open>s\<close>.\<close>

fun str_in :: "string \<Rightarrow> string \<Rightarrow> bool" where
  "str_in p [] = (p = [])"
| "str_in p (c # cs) = (take (length p) (c # cs) = p \<or> str_in p cs)"

text \<open>Python's \<^verbatim>\<open>int(c)\<close> for a one-character string \<open>c\<close>.\<close>

definition digit_values :: "(char \<times> int) list" where
  "digit_values =
    [(CHR ''0'', 0), (CHR ''1'', 1), (CHR ''2'', 2), (CHR ''3'', 3), (CHR ''4'', 4),
     (CHR ''5'', 5), (CHR ''6'', 6), (CHR ''7'', 7), (CHR ''8'', 8), (CHR ''9'', 9)]"

definition py_int_char :: "char \<Rightarrow> pyerror + int" where
  "py_int_char c =
    (case map_of digit_values c of
       None \<Rightarrow> Inl (ValueError (''invalid literal for int() with base 10: '' @ [c]))
     | Some d \<Rightarrow> Inr d)"

section \<open>The spectral type resolver\<close>

text \<open>
  \<^verbatim>\<open>pysynphot.Icat(catalog, Teff, metallicity, log_g)\<close> is an external constructor; the
  model keeps its four arguments.
\<close>

datatype spectrum = Icat string real real real

text \<open>The dictionary literal of \<^verbatim>\<open>specFromSpectralType\<close>, in the order it is written.\<close>

definition lookuptable :: "(string \<times> real \<times> real \<times> real) list" where
  "lookuptable =
    [(''O3V'',   (50000, 0, 5)),
     (''O5V'',   (45000, 0, 5)),
     (''O6V'',   (40000, 0, 45/10)),
     (''O8V'',   (35000, 0, 4)),
     (''O5I'',   (40000, 0, 45/10)),
     (''O6I'',   (40000, 0, 45/10)),
     (''O8I'',   (34000, 0, 4)),
     (''B0V'',   (30000, 0, 4)),
     (''B3V'',   (19000, 0, 4)),
     (''B5V'',   (15000, 0, 4)),
     (''B8V'',   (12000, 0, 4)),
     (''B0III'', (29000, 0, 35/10)),
     (''B5III'', (15000, 0, 35/10)),
     (''B0I'',   (26000, 0, 3)),
     (''B5I'',   (14000, 0, 25/10)),
     (''A0V'',   (9500, 0, 4)),
     (''A5V'',   (8250, 0, 45/10)),
     (''A0I'',   (9750, 0, 2)),
     (''A5I'',   (8500, 0, 2)),
     (''F0V'',   (7250, 0, 45/10)),
     (''F5V'',   (6500, 0, 45/10)),
     (''F0I'',   (7750, 0, 2)),
     (''F5I'',   (7000, 0, 15/10)),
     (''G0V'',   (6000, 0, 45/10)),
     (''G5V'',   (5750, 0, 45/10)),
     (''G0III'', (5750, 0, 3)),
     (''G5III'', (5250, 0, 25/10)),
     (''G0I'',   (5500, 0, 15/10)),
     (''G5I'',   (4750, 0, 1)),
     (''K0V'',   (5250, 0, 45/10)),
     (''K5V'',   (4250, 0, 45/10)),
     (''K0III'', (4750, 0, 2)),
     (''K5III'', (4000, 0, 15/10)),
     (''K0I'',   (4500, 0, 1)),
     (''K5I'',   (3750, 0, 5/10)),
     (''M0V'',   (3750, 0, 45/10)),
     (''M2V'',   (3500, 0, 45/10)),
     (''M5V'',   (3500, 0, 5)),
     (''M0III'', (3750, 0, 15/10)),
     (''M0I'',   (3750, 0, 0)),
     (''M2I'',   (3500, 0, 0))]"

definition lettervals :: "(char \<times> real) list" where
  "lettervals =
    [(CHR ''O'', 0), (CHR ''B'', 10), (CHR ''A'', 20), (CHR ''F'', 30),
     (CHR ''G'', 40), (CHR ''K'', 50), (CHR ''M'', 60)]"

text \<open>
  The sort key \<^verbatim>\<open>sort_sptype\<close>. The statements are evaluated in the order of the
  source: \<^verbatim>\<open>typestr[0]\<close>, the \<^verbatim>\<open>lettervals\<close> lookup, \<^verbatim>\<open>typestr[1]\<close>, \<^verbatim>\<open>int\<close>, and then
  the \<^verbatim>\<open>if/elif/elif\<close> chain of substring tests.
\<close>

definition sort_sptype :: "string \<Rightarrow> pyerror + real" where
  "sort_sptype typestr =
    (case typestr of
       [] \<Rightarrow> Inl (IndexError ''string index out of range'')
     | letter # rest \<Rightarrow>
        (case map_of lettervals letter of
           None \<Rightarrow> Inl (KeyError [letter])
         | Some lv \<Rightarrow>
            (case rest of
               [] \<Rightarrow> Inl (IndexError ''string index out of range'')
             | d # _ \<Rightarrow>
                (case py_int_char d of
                   Inl e \<Rightarrow> Inl e
                 | Inr n \<Rightarrow>
                    (let value = lv * 1 + real_of_int n in
                     Inr (if str_in ''III'' typestr then value + 3/10
                          else if str_in ''I'' typestr then value + 1/10
                          else if str_in ''V'' typestr then value + 5/10
                          else value))))))"

text \<open>
  \<^verbatim>\<open>list.sort(key=f)\<close> first computes the key of every element, in list order, and
  an exception of \<open>f\<close> leaves the call; then it sorts stably by the keys.
\<close>

fun sort_keys :: "('a \<Rightarrow> pyerror + real) \<Rightarrow> 'a list \<Rightarrow> pyerror + (real \<times> 'a) list" where
  "sort_keys f [] = Inr []"
| "sort_keys f (x # xs) =
    (case f x of
       Inl e \<Rightarrow> Inl e
     | Inr k \<Rightarrow> (case sort_keys f xs of Inl e \<Rightarrow> Inl e | Inr kxs \<Rightarrow> Inr ((k, x) # kxs)))"

definition py_sort :: "('a \<Rightarrow> pyerror + real) \<Rightarrow> 'a list \<Rightarrow> pyerror + 'a list" where
  "py_sort f xs =
    (case sort_keys f xs of
       Inl e \<Rightarrow> Inl e
     | Inr kxs \<Rightarrow> Inr (map snd (sort_key fst kxs)))"

text \<open>
  The listing branch, for the key order \<open>ks\<close> that \<^verbatim>\<open>lookuptable.keys()\<close> happens to
  return (a Python 2 dictionary iterates in hash order).
\<close>

definition sptype_list :: "string list \<Rightarrow> pyerror + string list" where
  "sptype_list ks = py_sort sort_sptype ks"

datatype spec_result = SpecList "string list" | Spec spectrum

definition specFromSpectralType :: "string \<Rightarrow> bool \<Rightarrow> pyerror + spec_result" where
  "specFromSpectralType sptype return_list =
    (if return_list then
       (case sptype_list (map fst lookuptable) of
          Inl e \<Rightarrow> Inl e
        | Inr l \<Rightarrow> Inr (SpecList l))
     else
       (case map_of lookuptable sptype of
          None \<Rightarrow> Inl (LookupError (''Lookup table does not include spectral type '' @ sptype))
        | Some (teff, metallicity, logg) \<Rightarrow> Inr (Spec (Icat ''ck04models'' teff metallicity logg))))"

text \<open>
  The ordinal as the specification words it: the letter class gives a base value in steps
  of ten, the digit its value, and the luminosity suffix (what follows the digit) a
  fraction: \<open>I\<close> a tenth, \<open>III\<close> three tenths, \<open>V\<close> five tenths.
\<close>

definition spec_letter_base :: "char \<Rightarrow> real" where
  "spec_letter_base c =
    (if c = CHR ''O'' then 0 else if c = CHR ''B'' then 10 else if c = CHR ''A'' then 20
     else if c = CHR ''F'' then 30 else if c = CHR ''G'' then 40 else if c = CHR ''K'' then 50
     else if c = CHR ''M'' then 60 else 0)"

definition spec_suffix_fraction :: "string \<Rightarrow> real" where
  "spec_suffix_fraction s =
    (if s = ''I'' then 1/10 else if s = ''III'' then 3/10 else if s = ''V'' then 5/10 else 0)"

definition spec_ordinal :: "string \<Rightarrow> real" where
  "spec_ordinal s =
    spec_letter_base (hd s) + real_of_int (of_char (s ! 1) - 48) + spec_suffix_fraction (drop 2 s)"

text \<open>The table's keys in the order of the ordinal.\<close>

definition sorted_sptypes :: "string list" where
  "sorted_sptypes =
    [''O3V'', ''O5I'', ''O5V'', ''O6I'', ''O6V'', ''O8I'', ''O8V'',
     ''B0I'', ''B0III'', ''B0V'', ''B3V'', ''B5I'', ''B5III'', ''B5V'', ''B8V'',
     ''A0I'', ''A0V'', ''A5I'', ''A5V'',
     ''F0I'', ''F0V'', ''F5I'', ''F5V'',
     ''G0I'', ''G0III'', ''G0V'', ''G5I'', ''G5III'', ''G5V'',
     ''K0I'', ''K0III'', ''K0V'', ''K5I'', ''K5III'', ''K5V'',
     ''M0I'', ''M0III'', ''M0V'', ''M2I'', ''M2V'', ''M5V'']"

text \<open>Whether \<open>a\<close> occurs in \<open>xs\<close> and \<open>b\<close> occurs after the first \<open>a\<close>.\<close>

definition precedes :: "'a \<Rightarrow> 'a \<Rightarrow> 'a list \<Rightarrow> bool" where
  "precedes a b xs = (a \<noteq> b \<and> b \<in> set (dropWhile (\<lambda>x. x \<noteq> a) xs))"

section \<open>The scene model\<close>

text \<open>
  The argument \<^verbatim>\<open>sptype_or_spectrum\<close> is a \<^verbatim>\<open>str\<close> or a spectrum object. A
  normalization is \<^verbatim>\<open>None\<close>, an instance of \<^verbatim>\<open>numbers.Number\<close>, or any other object
  (the docstring suggests a tuple), kept here by its printed form.
\<close>

datatype spec_arg = SpType string | SpObject spectrum

datatype pynorm = Number real | NonNumber string

record source =
  spectrum :: spec_arg
  separation :: real
  PA :: real
  normalization :: "pynorm option"
  name :: string

text \<open>
  \<^verbatim>\<open>addPointSource\<close> returns nothing; the model returns the exception, if any, and the
  list \<^verbatim>\<open>self.sources\<close> after the call. The resolved spectrum is only computed: the
  entry stores the argument as it was passed.
\<close>

definition addPointSource ::
  "source list \<Rightarrow> spec_arg \<Rightarrow> string \<Rightarrow> real \<Rightarrow> real \<Rightarrow> pynorm option
    \<Rightarrow> (pyerror + unit) \<times> source list" where
  "addPointSource sources sptype_or_spectrum nm sep pa nrm =
    (case (case sptype_or_spectrum of
             SpType s \<Rightarrow> specFromSpectralType s False
           | SpObject sp \<Rightarrow> Inr (Spec sp)) of
       Inl e \<Rightarrow> (Inl e, sources)
     | Inr sp \<Rightarrow>
        (Inr (),
         sources @ [\<lparr>spectrum = sptype_or_spectrum, separation = sep, PA = pa,
                     normalization = nrm, name = nm\<rparr>]))"

section \<open>FITS structures\<close>

text \<open>
  A header is its keyword cards (value and comment) and its history log; a header value
  is an integer, a float or a string. An HDU is pixel data with a header, and what
  \<^verbatim>\<open>calcPSF\<close> returns is a list of HDUs.
\<close>

datatype hval = HInt int | HFloat real | HStr string

record header =
  cards :: "string \<rightharpoonup> hval \<times> string"
  history :: "string list"

record hdu =
  data :: "real list list"
  header :: header

text \<open>
  \<^verbatim>\<open>header.update(key, value, comment)\<close>; without a comment the card keeps the one it
  has. \<^verbatim>\<open>header[key]\<close> raises \<^verbatim>\<open>KeyError\<close> for a missing keyword.
\<close>

definition hdr_update :: "string \<Rightarrow> hval \<Rightarrow> string option \<Rightarrow> header \<Rightarrow> header" where
  "hdr_update key v comment h =
    h\<lparr>cards := (cards h)(key \<mapsto>
        (v, case comment of
              Some c \<Rightarrow> c
            | None \<Rightarrow> (case cards h key of Some (old, c) \<Rightarrow> c | None \<Rightarrow> [])))\<rparr>"

definition add_history :: "string \<Rightarrow> header \<Rightarrow> header" where
  "add_history s h = h\<lparr>history := history h @ [s]\<rparr>"

definition hdr_get :: "string \<Rightarrow> header \<Rightarrow> pyerror + hval" where
  "hdr_get key h =
    (case cards h key of
       None \<Rightarrow> Inl (KeyError key)
     | Some (v, c) \<Rightarrow> Inr v)"

text \<open>
  \<^verbatim>\<open>v > 1\<close> in Python 2: numbers compare by value, and a string is greater than every
  number.
\<close>

fun py_gt_one :: "hval \<Rightarrow> bool" where
  "py_gt_one (HInt i) = (i > 1)"
| "py_gt_one (HFloat r) = (r > 1)"
| "py_gt_one (HStr s) = True"

text \<open>\<^verbatim>\<open>a * b\<close> on header values: arithmetic on numbers, repetition of a string.\<close>

fun py_mul :: "hval \<Rightarrow> hval \<Rightarrow> pyerror + hval" where
  "py_mul (HInt a) (HInt b) = Inr (HInt (a * b))"
| "py_mul (HInt a) (HFloat b) = Inr (HFloat (real_of_int a * b))"
| "py_mul (HFloat a) (HInt b) = Inr (HFloat (a * real_of_int b))"
| "py_mul (HFloat a) (HFloat b) = Inr (HFloat (a * b))"
| "py_mul (HStr s) (HInt n) = Inr (HStr (concat (replicate (nat n) s)))"
| "py_mul (HInt n) (HStr s) = Inr (HStr (concat (replicate (nat n) s)))"
| "py_mul a b = Inl (TypeError ''unsupported operand type(s) for *'')"

text \<open>The number a header value stands for, if it is one.\<close>

fun hnum :: "hval \<Rightarrow> real option" where
  "hnum (HInt i) = Some (real_of_int i)"
| "hnum (HFloat x) = Some x"
| "hnum (HStr s) = None"

text \<open>
  Pixel arrays are lists of rows. \<^verbatim>\<open>a *= k\<close> scales every pixel. \<^verbatim>\<open>a += b\<close> adds pixel
  by pixel into \<open>a\<close>, whose shape stays: numpy broadcasts the right operand, repeating an
  axis of length 1 to the length \<open>a\<close> has there, and raises \<^verbatim>\<open>ValueError\<close> on any other
  mismatch of the shapes.
\<close>

definition scale :: "real \<Rightarrow> real list list \<Rightarrow> real list list" where
  "scale k d = map (map (\<lambda>x. x * k)) d"

definition broadcast :: "nat \<Rightarrow> 'a list \<Rightarrow> 'a list option" where
  "broadcast n xs =
    (if length xs = n then Some xs
     else if length xs = 1 then Some (replicate n (hd xs))
     else None)"

definition data_add :: "real list list \<Rightarrow> real list list \<Rightarrow> pyerror + real list list" where
  "data_add a b =
    (case broadcast (length a) b of
       None \<Rightarrow> Inl (ValueError ''operands could not be broadcast together'')
     | Some rows \<Rightarrow>
        (case those (map2 (\<lambda>arow brow. broadcast (length arow) brow) a rows) of
           None \<Rightarrow> Inl (ValueError ''operands could not be broadcast together'')
         | Some brows \<Rightarrow> Inr (map2 (map2 (+)) a brows)))"

definition data_sum :: "real list list \<Rightarrow> real" where
  "data_sum d = sum_list (map sum_list d)"

text \<open>Apply \<open>f\<close> to \<^verbatim>\<open>hdulist[0]\<close>; an empty list raises \<^verbatim>\<open>IndexError\<close>.\<close>

definition upd_primary :: "(hdu \<Rightarrow> hdu) \<Rightarrow> hdu list \<Rightarrow> pyerror + hdu list" where
  "upd_primary f hl =
    (case hl of
       [] \<Rightarrow> Inl (IndexError ''list index out of range'')
     | h # rest \<Rightarrow> Inr (f h # rest))"

definition upd_header :: "(header \<Rightarrow> header) \<Rightarrow> hdu \<Rightarrow> hdu" where
  "upd_header f h = h\<lparr>header := f (header h)\<rparr>"

text \<open>\<^verbatim>\<open>os.path.basename\<close>: what follows the last slash.\<close>

definition basename :: "string \<Rightarrow> string" where
  "basename p = rev (takeWhile (\<lambda>c. c \<noteq> CHR ''/'') (rev p))"

section \<open>External collaborators\<close>

text \<open>
  The instrument's \<^verbatim>\<open>calcPSF\<close> (which reads the instrument's options, the source and the
  rebin flag; the keyword arguments passed through are part of the function), its
  \<^verbatim>\<open>_getSynphotBandpass\<close>, the synthetic photometry
  \<^verbatim>\<open>pysynphot.Observation(spectrum, bp).effstim('Jy')\<close>, \<^verbatim>\<open>webbpsf.rebin_array\<close>,
  Python's formatting of one float under a conversion such as \<^verbatim>\<open>%.3f\<close>, and
  \<^verbatim>\<open>HDUList.writeto\<close> are not part of this module. They are parameters of the model;
  each may raise. The instrument's options are kept as a map from option names to
  numbers, and \<^verbatim>\<open>calcPSF\<close> is taken not to write them.
\<close>

datatype bandpass = Bandpass string

type_synonym options = "string \<rightharpoonup> real"

record env =
  calcPSF :: "options \<Rightarrow> spec_arg \<Rightarrow> bool \<Rightarrow> pyerror + hdu list"
  getSynphotBandpass :: "pyerror + bandpass"
  effstim :: "spec_arg \<Rightarrow> bandpass \<Rightarrow> pyerror + real"
  rebin_array :: "real list list \<Rightarrow> hval \<times> hval \<Rightarrow> pyerror + real list list"
  fmt :: "string \<Rightarrow> real \<Rightarrow> string"
  writeto :: "string \<Rightarrow> bool \<Rightarrow> hdu list \<Rightarrow> pyerror + unit"

section \<open>The image compositor\<close>

text \<open>
  \<^verbatim>\<open>numpy.arctan2(y, x)\<close> on real numbers: the angle of the point \<open>(x, y)\<close> in the
  interval from \<open>-\<pi>\<close> (excluded) to \<open>\<pi>\<close>, and 0 at the origin. The signed zeros of
  IEEE doubles, on which numpy's result at \<open>y = 0\<close> and at the origin depends, and the
  rounding of the library functions are outside this model.
\<close>

definition arctan2 :: "real \<Rightarrow> real \<Rightarrow> real" where
  "arctan2 y x =
    (if x > 0 then arctan (y / x)
     else if x < 0 then (if y \<ge> 0 then arctan (y / x) + pi else arctan (y / x) - pi)
     else if y > 0 then pi / 2
     else if y < 0 then - (pi / 2)
     else 0)"

text \<open>
  The offset of one source (lines 121 to 136): the pair written to
  \<^verbatim>\<open>instrument.options['source_offset_r']\<close> and \<^verbatim>\<open>['source_offset_theta']\<close>. With a
  pointing offset, \<^verbatim>\<open>offset_PA = None\<close> makes the product \<^verbatim>\<open>offset_PA * N.pi\<close> raise
  before the options are written.
\<close>

definition resolve_offset ::
  "real option \<Rightarrow> real option \<Rightarrow> real \<Rightarrow> source \<Rightarrow> pyerror + real \<times> real" where
  "resolve_offset offset_r offset_PA image_PA obj =
    (case offset_r of
       None \<Rightarrow> Inr (separation obj, PA obj - image_PA)
     | Some r \<Rightarrow>
        (case offset_PA of
           None \<Rightarrow> Inl (TypeError ''unsupported operand type(s) for *: NoneType and float'')
         | Some opa \<Rightarrow>
            (let obj_x = separation obj * cos (PA obj * pi / 180);
                 obj_y = separation obj * sin (PA obj * pi / 180);
                 offset_x = r * cos (opa * pi / 180);
                 offset_y = r * sin (opa * pi / 180);
                 src_x = obj_x + offset_x;
                 src_y = obj_y + offset_y;
                 src_r = sqrt (src_x ^ 2 + src_y ^ 2);
                 src_pa = arctan2 src_y src_x * 180 / pi
             in Inr (src_r, src_pa - image_PA))))"

definition set_offset :: "real \<times> real \<Rightarrow> options \<Rightarrow> options" where
  "set_offset p opts =
    (opts(''source_offset_r'' \<mapsto> fst p))(''source_offset_theta'' \<mapsto> snd p)"

text \<open>
  The call \<^verbatim>\<open>NotImplemented("Not Yet")\<close> of lines 151 and 182: \<^verbatim>\<open>NotImplemented\<close> is
  the constant of rich comparisons, not the exception class, so the call itself raises
  \<^verbatim>\<open>TypeError\<close> and the \<^verbatim>\<open>raise\<close> statement never gets a value.
\<close>

definition call_NotImplemented :: pyerror where
  "call_NotImplemented = TypeError ''NotImplementedType object is not callable''"

text \<open>
  The flux scaling (lines 146 to 157). The local variable \<^verbatim>\<open>effstim_Jy\<close> is assigned in
  the branch without a normalization only; the model carries it as an option, \<open>None\<close>
  while it is unbound.
\<close>

definition apply_normalization ::
  "env \<Rightarrow> source \<Rightarrow> hdu list \<Rightarrow> real option \<Rightarrow> pyerror + hdu list \<times> real option" where
  "apply_normalization E obj src_psf effstim_Jy =
    (case normalization obj of
       Some (Number k) \<Rightarrow>
        (case upd_primary (\<lambda>h. h\<lparr>data := scale k (data h)\<rparr>) src_psf of
           Inl e \<Rightarrow> Inl e
         | Inr p \<Rightarrow> Inr (p, effstim_Jy))
     | Some (NonNumber other) \<Rightarrow> Inl call_NotImplemented
     | None \<Rightarrow>
        (case getSynphotBandpass E of
           Inl e \<Rightarrow> Inl e
         | Inr bp \<Rightarrow>
            (case effstim E (spectrum obj) bp of
               Inl e \<Rightarrow> Inl e
             | Inr v \<Rightarrow>
                (case upd_primary (\<lambda>h. h\<lparr>data := scale v (data h)\<rparr>) src_psf of
                   Inl e \<Rightarrow> Inl e
                 | Inr p \<Rightarrow> Inr (p, Some v)))))"

text \<open>
  The accumulation (lines 160 to 173). The first PSF becomes the composite and its
  header gets the scene's entries; a later one is added to the primary's pixels.
\<close>

definition first_header ::
  "env \<Rightarrow> real \<Rightarrow> real option \<Rightarrow> real option \<Rightarrow> header \<Rightarrow> pyerror + header" where
  "first_header E image_PA offset_r offset_PA h =
    (let h1 = add_history ''obssim : Creating an image simulation with multiple PSFs'' h;
         h2 = hdr_update ''IMAGE_PA'' (HFloat image_PA) (Some ''PA of scene in simulated image'') h1;
         h3 = hdr_update ''OFFSET_R'' (case offset_r of None \<Rightarrow> HInt 0 | Some r \<Rightarrow> HFloat r)
                (Some ''[arcsec] Offset of target center from FOV center'') h2;
         h4 = hdr_update ''OFFSETPA'' (case offset_PA of None \<Rightarrow> HInt 0 | Some a \<Rightarrow> HFloat a)
                (Some ''[deg] Position angle of target offset from FOV center'') h3
     in case offset_r of
          None \<Rightarrow> Inr (add_history ''Image is centered on target (perfect acquisition)'' h4)
        | Some r \<Rightarrow>
           (case offset_PA of
              None \<Rightarrow> Inl (TypeError ''float argument required, not NoneType'')
            | Some a \<Rightarrow>
               Inr (add_history (''Image is offset '' @ fmt E ''%.2f'' r @ '' arcsec at PA=''
                      @ fmt E ''%.1f'' a @ '' from target'') h4)))"

definition accumulate ::
  "env \<Rightarrow> real \<Rightarrow> real option \<Rightarrow> real option \<Rightarrow> hdu list option \<Rightarrow> hdu list
    \<Rightarrow> pyerror + hdu list" where
  "accumulate E image_PA offset_r offset_PA sum_image src_psf =
    (case sum_image of
       None \<Rightarrow>
        (case src_psf of
           [] \<Rightarrow> Inl (IndexError ''list index out of range'')
         | p # rest \<Rightarrow>
            (case first_header E image_PA offset_r offset_PA (header p) of
               Inl e \<Rightarrow> Inl e
             | Inr h \<Rightarrow> Inr (p\<lparr>header := h\<rparr> # rest)))
     | Some img \<Rightarrow>
        (case img of
           [] \<Rightarrow> Inl (IndexError ''list index out of range'')
         | s # srest \<Rightarrow>
            (case src_psf of
               [] \<Rightarrow> Inl (IndexError ''list index out of range'')
             | p # rest \<Rightarrow>
                (case data_add (data s) (data p) of
                   Inl e \<Rightarrow> Inl e
                 | Inr d \<Rightarrow> Inr (s\<lparr>data := d\<rparr> # srest)))))"

text \<open>
  The provenance entries (lines 175 to 178). The second one reads \<^verbatim>\<open>effstim_Jy\<close>, which
  raises \<^verbatim>\<open>UnboundLocalError\<close> while the variable is unbound.
\<close>

definition added_source_entry :: "env \<Rightarrow> source \<Rightarrow> string" where
  "added_source_entry E obj =
    ''Added source '' @ name obj @ '' at r='' @ fmt E ''%.3f'' (separation obj)
      @ '', theta='' @ fmt E ''%.2f'' (PA obj)"

definition provenance ::
  "env \<Rightarrow> source \<Rightarrow> real option \<Rightarrow> real \<Rightarrow> real \<times> real \<Rightarrow> header \<Rightarrow> pyerror + header" where
  "provenance E obj effstim_Jy counts off h =
    (let h1 = add_history (added_source_entry E obj) h in
     case effstim_Jy of
       None \<Rightarrow> Inl (UnboundLocalError ''local variable effstim_Jy referenced before assignment'')
     | Some v \<Rightarrow>
        (let h2 = add_history (''                with effstim = '' @ fmt E ''%.3g'' v @ '' Jy'') h1;
             h3 = add_history (''                counts in image: '' @ fmt E ''%.3g'' counts) h2
         in Inr (add_history (''                pos in image: '' @ fmt E ''%.3g'' (fst off)
                   @ [CHR 0x27, CHR 0x27] @ '' at '' @ fmt E ''%.1f'' (snd off) @ '' deg'') h3)))"

text \<open>
  One pass of the loop body for the source \<open>obj\<close>. The loop's variables are the composite
  \<^verbatim>\<open>sum_image\<close> (\<open>None\<close> before the first source) and \<^verbatim>\<open>effstim_Jy\<close>; the instrument's
  options are returned also when the pass raises. The log messages are left out.
\<close>

type_synonym loop_state = "hdu list option \<times> real option"

definition calcImage_source ::
  "env \<Rightarrow> bool \<Rightarrow> real \<Rightarrow> real option \<Rightarrow> real option \<Rightarrow> source \<Rightarrow> loop_state \<Rightarrow> options
    \<Rightarrow> (pyerror + loop_state) \<times> options" where
  "calcImage_source E rebin image_PA offset_r offset_PA obj st opts =
    (case resolve_offset offset_r offset_PA image_PA obj of
       Inl e \<Rightarrow> (Inl e, opts)
     | Inr off \<Rightarrow>
        (let opts1 = set_offset off opts in
         ((case calcPSF E opts1 (spectrum obj) rebin of
             Inl e \<Rightarrow> Inl e
           | Inr src_psf \<Rightarrow>
              (case apply_normalization E obj src_psf (snd st) of
                 Inl e \<Rightarrow> Inl e
               | Inr (scaled, effstim_Jy) \<Rightarrow>
                  (case accumulate E image_PA offset_r offset_PA (fst st) scaled of
                     Inl e \<Rightarrow> Inl e
                   | Inr img \<Rightarrow>
                      (case img of
                         [] \<Rightarrow> Inl (IndexError ''list index out of range'')
                       | s # srest \<Rightarrow>
                          (case scaled of
                             [] \<Rightarrow> Inl (IndexError ''list index out of range'')
                           | p # prest \<Rightarrow>
                              (case provenance E obj effstim_Jy (data_sum (data p)) off
                                      (header s) of
                                 Inl e \<Rightarrow> Inl e
                               | Inr h \<Rightarrow>
                                  Inr (Some (s\<lparr>header := h\<rparr> # srest), effstim_Jy))))))),
          opts1)))"

fun calcImage_loop ::
  "env \<Rightarrow> bool \<Rightarrow> real \<Rightarrow> real option \<Rightarrow> real option \<Rightarrow> source list \<Rightarrow> loop_state \<Rightarrow> options
    \<Rightarrow> (pyerror + loop_state) \<times> options" where
  "calcImage_loop E rebin image_PA offset_r offset_PA [] st opts = (Inr st, opts)"
| "calcImage_loop E rebin image_PA offset_r offset_PA (obj # rest) st opts =
    (case calcImage_source E rebin image_PA offset_r offset_PA obj st opts of
       (Inl e, opts1) \<Rightarrow> (Inl e, opts1)
     | (Inr st1, opts1) \<Rightarrow> calcImage_loop E rebin image_PA offset_r offset_PA rest st1 opts1)"

text \<open>
  The downsampling step (lines 190 to 200), entered with the composite whose primary
  header has \<^verbatim>\<open>DET_SAMP > 1\<close>.
\<close>

definition rebin_step :: "env \<Rightarrow> hdu list \<Rightarrow> pyerror + hdu list" where
  "rebin_step E sum_image =
    (case sum_image of
       [] \<Rightarrow> Inl (IndexError ''pop from empty list'')
     | first # others \<Rightarrow>
        (let popped = butlast sum_image in
         case popped of
           [] \<Rightarrow> Inl (IndexError ''list index out of range'')
         | primary # exts \<Rightarrow>
            (case hdr_get ''DET_SAMP'' (header primary) of
               Inl e \<Rightarrow> Inl e
             | Inr detector_oversample \<Rightarrow>
                (case rebin_array E (data primary) (detector_oversample, detector_oversample) of
                   Inl e \<Rightarrow> Inl e
                 | Inr d \<Rightarrow>
                    (let h1 = hdr_update ''OVERSAMP'' (HInt 1)
                                (Some ''These data are rebinned to detector pixels'') (header primary);
                         h2 = hdr_update ''CALCSAMP'' detector_oversample
                                (Some ''This much oversampling used in calculation'') h1;
                         h3 = hdr_update ''EXTNAME'' (HStr ''DET_SAMP'') None h2
                     in case hdr_get ''PIXELSCL'' h3 of
                          Inl e \<Rightarrow> Inl e
                        | Inr scl \<Rightarrow>
                           (case py_mul scl detector_oversample of
                              Inl e \<Rightarrow> Inl e
                            | Inr scl1 \<Rightarrow>
                               Inr (popped @
                                 [\<lparr>data = d, header = hdr_update ''PIXELSCL'' scl1 None h3\<rparr>])))))))"

text \<open>
  What \<^verbatim>\<open>calcImage\<close> leaves behind: the value it returns or the exception it raises, the
  instrument's options, and the file it wrote, if any.
\<close>

record outcome =
  result :: "pyerror + hdu list"
  inst_options :: options
  written :: "(string \<times> hdu list) option"

text \<open>The part of \<^verbatim>\<open>calcImage\<close> after the loop (lines 181 to 209).\<close>

definition calcImage_finish ::
  "env \<Rightarrow> nat \<Rightarrow> string option \<Rightarrow> bool \<Rightarrow> bool \<Rightarrow> bool \<Rightarrow> hdu list option
    \<Rightarrow> (pyerror + hdu list) \<times> (string \<times> hdu list) option" where
  "calcImage_finish E nsources outfile noise rebin clobber sum_image =
    (if noise then (Inl call_NotImplemented, None)
     else
      (case sum_image of
         None \<Rightarrow> (Inl (TypeError ''NoneType object has no attribute __getitem__''), None)
       | Some img \<Rightarrow>
          (case img of
             [] \<Rightarrow> (Inl (IndexError ''list index out of range''), None)
           | s # srest \<Rightarrow>
              (let img1 = upd_header (hdr_update ''NSOURCES'' (HInt (int nsources))
                            (Some ''Number of point sources in sim'')) s # srest in
               case (if rebin
                     then (case hdr_get ''DET_SAMP'' (header (hd img1)) of
                             Inl e \<Rightarrow> Inl e
                           | Inr v \<Rightarrow> if py_gt_one v then rebin_step E img1 else Inr img1)
                     else Inr img1) of
                 Inl e \<Rightarrow> (Inl e, None)
               | Inr img2 \<Rightarrow>
                  (case outfile of
                     None \<Rightarrow> (Inr img2, None)
                   | Some path \<Rightarrow>
                      (case upd_primary (upd_header (hdr_update ''FILENAME'' (HStr (basename path))
                                (Some ''Name of this file''))) img2 of
                         Inl e \<Rightarrow> (Inl e, None)
                       | Inr img3 \<Rightarrow>
                          (case writeto E path clobber img3 of
                             Inl e \<Rightarrow> (Inl e, None)
                           | Inr u \<Rightarrow> (Inr img3, Some (path, img3)))))))))"

text \<open>
  \<^verbatim>\<open>calcImage\<close>: \<open>sources\<close> is \<^verbatim>\<open>self.sources\<close>, \<open>opts\<close> the instrument's options at the
  call, \<open>image_PA\<close> the argument \<^verbatim>\<open>PA\<close>.
\<close>

definition calcImage ::
  "env \<Rightarrow> source list \<Rightarrow> options \<Rightarrow> string option \<Rightarrow> bool \<Rightarrow> bool \<Rightarrow> bool \<Rightarrow> real
    \<Rightarrow> real option \<Rightarrow> real option \<Rightarrow> outcome" where
  "calcImage E sources opts outfile noise rebin clobber image_PA offset_r offset_PA =
    (case calcImage_loop E rebin image_PA offset_r offset_PA sources (None, None) opts of
       (Inl e, opts1) \<Rightarrow> \<lparr>result = Inl e, inst_options = opts1, written = None\<rparr>
     | (Inr st, opts1) \<Rightarrow>
        (case calcImage_finish E (length sources) outfile noise rebin clobber (fst st) of
           (r, w) \<Rightarrow> \<lparr>result = r, inst_options = opts1, written = w\<rparr>))"

section \<open>Block averaging and sample inputs\<close>

text \<open>
  Modelled from the spec: \<^verbatim>\<open>webbpsf.rebin_array\<close> is not among the sources. The
  specification describes the step as block-averaging the oversampled data down to the
  detector's pixel scale: with the factors \<open>r\<close> and \<open>c\<close>, pixel \<open>(i, j)\<close> of the result is the
  mean of the \<open>r\<close> by \<open>c\<close> pixels of the block at rows \<open>i * r\<close> and columns \<open>j * c\<close>. A
  factor is a positive integer, given as an integer or as a float with an integer value.
\<close>

definition block_mean :: "nat \<Rightarrow> nat \<Rightarrow> real list list \<Rightarrow> real list list" where
  "block_mean r c d =
    map (\<lambda>i. map (\<lambda>j. (\<Sum>a\<leftarrow>[0..<r]. \<Sum>b\<leftarrow>[0..<c]. d ! (i * r + a) ! (j * c + b))
                          / real (r * c))
               [0..<(case d of [] \<Rightarrow> 0 | row # rows \<Rightarrow> length row) div c])
        [0..<length d div r]"

fun rebin_factor :: "hval \<Rightarrow> nat option" where
  "rebin_factor (HInt i) = (if i > 0 then Some (nat i) else None)"
| "rebin_factor (HFloat x) =
    (if x > 0 \<and> x = real_of_int \<lfloor>x\<rfloor> then Some (nat \<lfloor>x\<rfloor>) else None)"
| "rebin_factor (HStr s) = None"

text \<open>
  Modelled from the spec: \<^verbatim>\<open>webbpsf.rebin_array(a, rc=(r, c))\<close>, which is not among the
  sources, as the block averaging of the specification.
\<close>

definition rebin_array_mean :: "real list list \<Rightarrow> hval \<times> hval \<Rightarrow> pyerror + real list list" where
  "rebin_array_mean d rc =
    (case rebin_factor (fst rc) of
       None \<Rightarrow> Inl (ValueError ''rebin factors must be positive integers'')
     | Some r \<Rightarrow>
        (case rebin_factor (snd rc) of
           None \<Rightarrow> Inl (ValueError ''rebin factors must be positive integers'')
         | Some c \<Rightarrow> Inr (block_mean r c d)))"

text \<open>
  A sample PSF (an oversampled primary and a detector-sampled extension), a sample
  environment whose collaborators all succeed, and sample sources: one without a
  normalization, one at the default position of \<^verbatim>\<open>addPointSource\<close>, a companion, one with the scalar normalization 2, one with a tuple,
  and the three-star scene of \<^verbatim>\<open>test_obssim\<close>.
\<close>

definition demo_header :: header where
  "demo_header =
    \<lparr>cards = [''DET_SAMP'' \<mapsto> (HInt 2, ''Oversampling factor''),
               ''PIXELSCL'' \<mapsto> (HFloat (1/100), ''Pixel scale'')],
     history = []\<rparr>"

definition demo_psf :: "hdu list" where
  "demo_psf =
    [\<lparr>data = [[1, 2], [3, 4]], header = demo_header\<rparr>,
     \<lparr>data = [[5/2]], header = demo_header\<rparr>]"

definition demo_env :: env where
  "demo_env =
    \<lparr>calcPSF = (\<lambda>opts src rebin. Inr demo_psf),
     getSynphotBandpass = Inr (Bandpass ''F210M''),
     effstim = (\<lambda>src bp. Inr 3),
     rebin_array = rebin_array_mean,
     fmt = (\<lambda>conv x. conv),
     writeto = (\<lambda>path clobber img. Inr ())\<rparr>"

definition demo_source :: source where
  "demo_source = \<lparr>spectrum = SpType ''G0V'', separation = 1, PA = 0, normalization = None,
     name = ''G0V star''\<rparr>"

definition test_sources :: "source list" where
  "test_sources =
    [\<lparr>spectrum = SpType ''G0V'', separation = 1/10, PA = 0, normalization = Some (Number 1),
       name = ''G0V star''\<rparr>,
     \<lparr>spectrum = SpType ''K0V'', separation = 1, PA = 45, normalization = Some (Number (4/10)),
       name = ''K0V star''\<rparr>,
     \<lparr>spectrum = SpType ''M0V'', separation = 15/10, PA = 245, normalization = Some (Number (3/10)),
       name = ''M0V star''\<rparr>]"

definition default_source :: source where
  "default_source = \<lparr>spectrum = SpType ''G0V'', separation = 0, PA = 0, normalization = None,
     name = ''unnamed source''\<rparr>"

definition demo_companion :: source where
  "demo_companion = \<lparr>spectrum = SpType ''M0V'', separation = 2, PA = 90, normalization = None,
     name = ''M0V star''\<rparr>"

definition demo_scalar_source :: source where
  "demo_scalar_source = \<lparr>spectrum = SpType ''G0V'', separation = 1/10, PA = 0,
     normalization = Some (Number 2), name = ''G0V star''\<rparr>"

definition demo_tuple_source :: source where
  "demo_tuple_source = \<lparr>spectrum = SpType ''G0V'', separation = 1/10, PA = 0,
     normalization = Some (NonNumber ''(10.0, vegamag, bandpass)''), name = ''G0V star''\<rparr>"

text \<open>
  The history entries that begin with \<^verbatim>\<open>Added source\<close>, in a header and in the primary
  header of a composite; and the assumption on the simulator that the PSFs it returns
  carry no such entry of their own.
\<close>

definition begins_Added_source :: "string \<Rightarrow> bool" where
  "begins_Added_source entry = (take 12 entry = ''Added source'')"

definition added_entries :: "hdu list \<Rightarrow> string list" where
  "added_entries img =
    (case img of [] \<Rightarrow> [] | p # exts \<Rightarrow> filter begins_Added_source (history (header p)))"

definition clean_simulator :: "env \<Rightarrow> bool" where
  "clean_simulator E =
    (\<forall>opts src rebin psf. calcPSF E opts src rebin = Inr psf \<longrightarrow> added_entries psf = [])"

definition state_entries :: "loop_state \<Rightarrow> string list" where
  "state_entries st = (case fst st of None \<Rightarrow> [] | Some img \<Rightarrow> added_entries img)"

section \<open>Unfolding rules\<close>

lemmas demo_defs = demo_env_def demo_psf_def demo_header_def demo_source_def test_sources_def
  rebin_array_mean_def block_mean_def
lemmas model_defs = calcImage_def calcImage_finish_def calcImage_source_def rebin_step_def
  resolve_offset_def set_offset_def apply_normalization_def accumulate_def first_header_def
  provenance_def added_source_entry_def upd_primary_def upd_header_def hdr_update_def hdr_get_def
  add_history_def scale_def data_add_def broadcast_def data_sum_def call_NotImplemented_def

section \<open>The spectral type resolver: unknown types and the listing\<close>

lemma str_in_self: "str_in p p"
  by (cases p) simp_all

lemma str_in_append: "str_in p (xs @ p)"
  by (induction xs) (simp_all add: str_in_self)

text \<open>
  Claim C3. For a string \<open>s\<close> that is not a key of the table, \<^verbatim>\<open>specFromSpectralType\<close>
  raises \<^verbatim>\<open>LookupError\<close> with a message that contains \<open>s\<close>, and \<^verbatim>\<open>addPointSource\<close>
  called with \<open>s\<close> raises the same error and leaves the list of sources as it was.
\<close>

theorem unknown_sptype_raises_LookupError:
  assumes "s \<notin> set (map fst lookuptable)"
  shows "\<exists>msg. specFromSpectralType s False = Inl (LookupError msg) \<and> str_in s msg \<and>
           addPointSource sources (SpType s) nm sep pa nrm = (Inl (LookupError msg), sources)"
proof -
  define msg where "msg = ''Lookup table does not include spectral type '' @ s"
  from assms have "map_of lookuptable s = None"
    by (simp add: map_of_eq_None_iff)
  then have a: "specFromSpectralType s False = Inl (LookupError msg)"
    unfolding msg_def by (simp add: specFromSpectralType_def)
  have b: "str_in s msg"
    unfolding msg_def by (rule str_in_append)
  have c: "addPointSource sources (SpType s) nm sep pa nrm = (Inl (LookupError msg), sources)"
    by (simp add: addPointSource_def a)
  from a b c show ?thesis by blast
qed

theorem unknown_sptype_raises_LookupError_witness:
  "''Z9Z'' \<notin> set (map fst lookuptable) \<and>
   (\<exists>msg. specFromSpectralType ''Z9Z'' False = Inl (LookupError msg) \<and> str_in ''Z9Z'' msg \<and>
      addPointSource [demo_source] (SpType ''Z9Z'') ''x'' 1 2 None = (Inl (LookupError msg), [demo_source]))"
proof -
  have h: "''Z9Z'' \<notin> set (map fst lookuptable)"
    by (simp add: lookuptable_def)
  show ?thesis
    using h unknown_sptype_raises_LookupError [OF h, of "[demo_source]" "''x''" 1 2 None] by blast
qed

lemma insort_key_decorate:
  "insort_key fst (g x, x) (map (\<lambda>y. (g y, y)) ys) = map (\<lambda>y. (g y, y)) (insort_key g x ys)"
  by (induction ys) simp_all

lemma sort_key_decorate:
  "sort_key fst (map (\<lambda>y. (g y, y)) xs) = map (\<lambda>y. (g y, y)) (sort_key g xs)"
  by (induction xs) (simp_all add: insort_key_decorate)

lemma sort_keys_total:
  "\<forall>x\<in>set xs. f x = Inr (g x) \<Longrightarrow> sort_keys f xs = Inr (map (\<lambda>y. (g y, y)) xs)"
  by (induction xs) simp_all

lemma py_sort_total:
  assumes "\<forall>x\<in>set xs. f x = Inr (g x)"
  shows "py_sort f xs = Inr (sort_key g xs)"
  by (simp add: py_sort_def sort_keys_total [OF assms] sort_key_decorate comp_def)

lemma sort_sptype_keys: "\<forall>k\<in>set sorted_sptypes. sort_sptype k = Inr (spec_ordinal k)"
  by (simp add: sorted_sptypes_def sort_sptype_def spec_ordinal_def lettervals_def py_int_char_def digit_values_def spec_letter_base_def spec_suffix_fraction_def)

lemma ordinal_strictly_sorted: "sorted_wrt (<) (map spec_ordinal sorted_sptypes)"
  by (simp add: sorted_sptypes_def spec_ordinal_def  spec_letter_base_def spec_suffix_fraction_def)

lemma keys_mset: "mset (map fst lookuptable) = mset sorted_sptypes"
  by (simp add: lookuptable_def sorted_sptypes_def)

lemma sort_key_unique:
  assumes perm: "mset xs = mset ys" and strict: "sorted_wrt (<) (map f ys)"
  shows "sort_key f xs = ys"
proof (rule properties_for_sort_key)
  show "mset ys = mset xs" using perm by simp
  show "sorted (map f ys)" using strict by (simp add: strict_sorted_imp_sorted)
  have dist: "distinct (map f ys)" using strict by (simp add: strict_sorted_iff)
  then have inj: "inj_on f (set ys)" and dys: "distinct ys"
    by (simp_all add: distinct_map)
  have sets: "set xs = set ys" using perm by (rule mset_eq_setD)
  fix k assume k: "k \<in> set ys"
  have "filter (\<lambda>x. f k = f x) ys = filter (\<lambda>x. k = x) ys"
    using inj k by (intro filter_cong) (auto dest: inj_onD)
  moreover have "filter (\<lambda>x. f k = f x) xs = filter (\<lambda>x. k = x) xs"
    using inj k sets by (intro filter_cong) (auto dest: inj_onD)
  moreover have "filter (\<lambda>x. k = x) xs = filter (\<lambda>x. k = x) ys"
    using perm by (simp add: replicate_count_mset_eq_filter_eq [symmetric])
  ultimately show "filter (\<lambda>x. f k = f x) ys = filter (\<lambda>x. f k = f x) xs" by simp
qed

lemma sptype_list_permutation:
  assumes "mset ks = mset sorted_sptypes"
  shows "sptype_list ks = Inr sorted_sptypes"
proof -
  have "set ks = set sorted_sptypes"
    using assms by (rule mset_eq_setD)
  then have keys: "\<forall>k\<in>set ks. sort_sptype k = Inr (spec_ordinal k)"
    using sort_sptype_keys by simp
  have "sptype_list ks = Inr (sort_key spec_ordinal ks)"
    unfolding sptype_list_def by (rule py_sort_total [OF keys])
  also have "sort_key spec_ordinal ks = sorted_sptypes"
    by (rule sort_key_unique [OF assms ordinal_strictly_sorted])
  finally show ?thesis .
qed

text \<open>
  Claim C7. In listing mode \<^verbatim>\<open>specFromSpectralType\<close> returns all keys of the table, in
  increasing order of the ordinal of the specification (letter class in steps of ten from
  O to M, plus the digit, plus 0.1 for I, 0.3 for III, 0.5 for V), whatever order the
  dictionary hands its keys out in; the sort key of the code is that ordinal on every
  key, and G0III comes before G0V, which comes before G5V.
\<close>

theorem listing_sorted_by_ordinal:
  assumes "mset ks = mset (map fst lookuptable)"
  shows "sptype_list ks = Inr sorted_sptypes \<and>
         specFromSpectralType sptype True = Inr (SpecList sorted_sptypes) \<and>
         mset sorted_sptypes = mset ks \<and>
         sorted_wrt (<) (map spec_ordinal sorted_sptypes) \<and>
         (\<forall>k\<in>set ks. sort_sptype k = Inr (spec_ordinal k)) \<and>
         precedes ''G0III'' ''G0V'' sorted_sptypes \<and> precedes ''G0V'' ''G5V'' sorted_sptypes"
proof -
  have perm: "mset ks = mset sorted_sptypes"
    using assms keys_mset by simp
  then have sets: "set ks = set sorted_sptypes"
    by (rule mset_eq_setD)
  have keys: "\<forall>k\<in>set ks. sort_sptype k = Inr (spec_ordinal k)"
    using sort_sptype_keys sets by simp
  have a: "sptype_list ks = Inr sorted_sptypes"
    by (rule sptype_list_permutation [OF perm])
  have "sptype_list (map fst lookuptable) = Inr sorted_sptypes"
    by (rule sptype_list_permutation [OF keys_mset])
  then have b: "specFromSpectralType sptype True = Inr (SpecList sorted_sptypes)"
    by (simp add: specFromSpectralType_def)
  have c: "precedes ''G0III'' ''G0V'' sorted_sptypes" "precedes ''G0V'' ''G5V'' sorted_sptypes"
    by (simp_all add: precedes_def sorted_sptypes_def)
  from a b perm ordinal_strictly_sorted keys c show ?thesis by simp
qed

theorem listing_sorted_by_ordinal_witness:
  "mset (rev (map fst lookuptable)) = mset (map fst lookuptable) \<and>
   sptype_list (rev (map fst lookuptable)) = Inr sorted_sptypes \<and>
   specFromSpectralType ''G0V'' True = Inr (SpecList sorted_sptypes) \<and>
   precedes ''G0III'' ''G0V'' sorted_sptypes \<and> precedes ''G0V'' ''G5V'' sorted_sptypes"
proof -
  have h: "mset (rev (map fst lookuptable)) = mset (map fst lookuptable)" by simp
  show ?thesis
    using h listing_sorted_by_ordinal [OF h, of "''G0V''"] by simp
qed

section \<open>The resolved offset of a source\<close>

lemma arctan2_polar:
  assumes s: "0 < s" and lo: "- pi < a" and hi: "a \<le> pi"
  shows "arctan2 (s * sin a) (s * cos a) = a"
proof -
  consider "a < - (pi / 2)" | "a = - (pi / 2)" | "- (pi / 2) < a \<and> a < pi / 2"
    | "a = pi / 2" | "pi / 2 < a"
    by linarith
  then show ?thesis
  proof cases
    case 1
    let ?b = "a + pi"
    have b: "0 < ?b" "?b < pi / 2" using 1 lo by simp_all
    have cb: "0 < cos ?b" using b by (intro cos_gt_zero_pi) linarith+
    have sb: "0 < sin ?b" using b by (intro sin_gt_zero) linarith+
    have "cos a < 0" "sin a < 0" using cb sb by simp_all
    then have x: "s * cos a < 0" and y: "s * sin a < 0"
      using s by (simp_all add: mult_pos_neg)
    have "s * sin a / (s * cos a) = tan ?b"
      using s by (simp add: tan_def)
    moreover have "arctan (tan ?b) = ?b"
      using b by (intro arctan_tan) linarith+
    ultimately show ?thesis using x y by (simp add: arctan2_def)
  next
    case 2
    have c: "cos a = 0" and sn: "sin a = - 1" unfolding 2 by simp_all
    show ?thesis unfolding arctan2_def c sn using s 2 by simp
  next
    case 3
    have "0 < cos a" using 3 by (intro cos_gt_zero_pi) linarith+
    then have x: "0 < s * cos a" using s by simp
    have "s * sin a / (s * cos a) = tan a" using s by (simp add: tan_def)
    moreover have "arctan (tan a) = a" using 3 by (intro arctan_tan) linarith+
    ultimately show ?thesis using x by (simp add: arctan2_def)
  next
    case 4
    have c: "cos a = 0" and sn: "sin a = 1" unfolding 4 by simp_all
    show ?thesis unfolding arctan2_def c sn using s 4 by simp
  next
    case 5
    let ?b = "a - pi"
    have b: "- (pi / 2) < ?b" "?b \<le> 0" using 5 hi by simp_all
    have cb: "0 < cos ?b" using b by (intro cos_gt_zero_pi) linarith+
    have "0 \<le> sin a" using 5 hi pi_gt_zero by (intro sin_ge_zero) linarith+
    then have y: "0 \<le> s * sin a" using s by simp
    have "cos a < 0" using cb by simp
    then have x: "s * cos a < 0" using s by (simp add: mult_pos_neg)
    have "s * sin a / (s * cos a) = tan ?b"
      using s by (simp add: tan_def)
    moreover have "arctan (tan ?b) = ?b"
      using b by (intro arctan_tan) linarith+
    ultimately show ?thesis using x y by (simp add: arctan2_def)
  qed
qed

lemma polar_radius:
  assumes "0 < s"
  shows "sqrt ((s * cos a) ^ 2 + (s * sin a) ^ 2) = s"
proof -
  have "(s * cos a) ^ 2 + (s * sin a) ^ 2 = s ^ 2 * ((cos a) ^ 2 + (sin a) ^ 2)"
    by (simp only: power_mult_distrib distrib_left)
  also have "\<dots> = s ^ 2" by (simp only: sin_cos_squared_add2 mult_1_right)
  finally show ?thesis using assms by simp
qed



lemma zero_offset_positive_separation:
  assumes "0 < separation obj" and "- 180 < PA obj" and "PA obj \<le> 180"
  shows "resolve_offset (Some 0) (Some offset_PA) image_PA obj =
         resolve_offset None (Some offset_PA) image_PA obj"
proof -
  let ?a = "PA obj * pi / 180"
  have "- 180 * pi < PA obj * pi"
    using assms(2) pi_gt_zero by (rule mult_strict_right_mono)
  then have lo: "- pi < ?a" by (simp add: field_simps)
  have "PA obj * pi \<le> 180 * pi"
    using assms(3) pi_ge_zero by (rule mult_right_mono)
  then have hi: "?a \<le> pi" by (simp add: field_simps)
  have r: "sqrt ((separation obj * cos ?a) ^ 2 + (separation obj * sin ?a) ^ 2) = separation obj"
    by (rule polar_radius [OF assms(1)])
  have t: "arctan2 (separation obj * sin ?a) (separation obj * cos ?a) = ?a"
    by (rule arctan2_polar [OF assms(1) lo hi])
  show ?thesis
    by (simp add: resolve_offset_def Let_def r t)
qed

lemma zero_offset_at_origin:
  assumes "separation obj = 0" and "PA obj = 0"
  shows "resolve_offset (Some 0) (Some offset_PA) image_PA obj =
         resolve_offset None (Some offset_PA) image_PA obj"
  using assms by (simp add: resolve_offset_def arctan2_def)




text \<open>
  In exact arithmetic these are all the sources for which the two pairs are equal: the
  radius resolved with a zero offset is never negative, and the angle lies above -180 and
  at most at 180 degrees.
\<close>

lemma arctan2_range: "- pi < arctan2 y x \<and> arctan2 y x \<le> pi"
proof -
  have lo: "- (pi / 2) < arctan (y / x)" and hi: "arctan (y / x) < pi / 2"
    by (rule arctan_lbound, rule arctan_ubound)
  consider "0 < x" | "x < 0 \<and> 0 \<le> y" | "x < 0 \<and> y < 0" | "x = 0"
    by linarith
  then show ?thesis
  proof cases
    case 1
    then have "arctan2 y x = arctan (y / x)" by (simp add: arctan2_def)
    with lo hi pi_gt_zero show ?thesis by linarith
  next
    case 2
    then have "y / x \<le> 0" by (simp add: divide_nonneg_neg)
    then have "arctan (y / x) \<le> 0" by (simp add: arctan_le_zero_iff)
    moreover from 2 have "arctan2 y x = arctan (y / x) + pi" by (simp add: arctan2_def)
    ultimately show ?thesis using lo pi_gt_zero by linarith
  next
    case 3
    then have "0 < y / x" by (simp add: divide_neg_neg)
    then have "0 < arctan (y / x)" by (simp add: zero_less_arctan_iff)
    moreover from 3 have "arctan2 y x = arctan (y / x) - pi" by (simp add: arctan2_def)
    ultimately show ?thesis using hi pi_gt_zero by linarith
  next
    case 4
    then have "arctan2 y x = pi / 2 \<or> arctan2 y x = - (pi / 2) \<or> arctan2 y x = 0"
      by (simp add: arctan2_def)
    with pi_gt_zero show ?thesis by linarith
  qed
qed

lemma degrees_range:
  assumes "- pi < t" and "t \<le> pi"
  shows "- 180 < t * 180 / pi \<and> t * 180 / pi \<le> 180"
proof -
  have "- 180 * pi < t * 180" using assms(1) by linarith
  then have a: "- 180 < t * 180 / pi" using pi_gt_zero by (simp add: pos_less_divide_eq)
  have "t * 180 \<le> 180 * pi" using assms(2) by linarith
  then have b: "t * 180 / pi \<le> 180" using pi_gt_zero by (simp add: pos_divide_le_eq)
  from a b show ?thesis ..
qed

lemma zero_offset_agreement_domain:
  "resolve_offset (Some 0) (Some offset_PA) image_PA obj =
     resolve_offset None (Some offset_PA) image_PA obj
   \<longleftrightarrow> (0 < separation obj \<and> - 180 < PA obj \<and> PA obj \<le> 180) \<or>
        (separation obj = 0 \<and> PA obj = 0)"
proof
  assume eq: "resolve_offset (Some 0) (Some offset_PA) image_PA obj =
     resolve_offset None (Some offset_PA) image_PA obj"
  let ?a = "PA obj * pi / 180"
  let ?x = "separation obj * cos ?a" and ?y = "separation obj * sin ?a"
  from eq have r: "sqrt (?x ^ 2 + ?y ^ 2) = separation obj"
    and t: "arctan2 ?y ?x * 180 / pi = PA obj"
    by (simp_all add: resolve_offset_def Let_def)
  from r have nonneg: "0 \<le> separation obj"
    by (metis real_sqrt_ge_zero sum_power2_ge_zero)
  show "(0 < separation obj \<and> - 180 < PA obj \<and> PA obj \<le> 180) \<or>
        (separation obj = 0 \<and> PA obj = 0)"
  proof (cases "separation obj = 0")
    case True
    with t have "PA obj = 0" by (simp add: arctan2_def)
    with True show ?thesis by simp
  next
    case False
    with nonneg have pos: "0 < separation obj" by simp
    from arctan2_range [of ?y ?x] have "- pi < arctan2 ?y ?x" "arctan2 ?y ?x \<le> pi" by simp_all
    then have "- 180 < arctan2 ?y ?x * 180 / pi \<and> arctan2 ?y ?x * 180 / pi \<le> 180"
      by (rule degrees_range)
    with t pos show ?thesis by simp
  qed
next
  assume "(0 < separation obj \<and> - 180 < PA obj \<and> PA obj \<le> 180) \<or>
        (separation obj = 0 \<and> PA obj = 0)"
  then show "resolve_offset (Some 0) (Some offset_PA) image_PA obj =
     resolve_offset None (Some offset_PA) image_PA obj"
    by (auto simp add: zero_offset_positive_separation zero_offset_at_origin)
qed

section \<open>The instrument's options\<close>

lemma set_offset_twice: "set_offset p (set_offset q opts) = set_offset p opts"
  by (simp add: set_offset_def)

lemma calcImage_source_options:
  assumes "calcImage_source E rebin image_PA offset_r offset_PA obj st opts = (Inr st1, opts1)"
  shows "\<exists>off. resolve_offset offset_r offset_PA image_PA obj = Inr off \<and> opts1 = set_offset off opts"
  using assms by (auto simp add: calcImage_source_def Let_def split: sum.splits)

lemma calcImage_loop_options:
  assumes "calcImage_loop E rebin image_PA offset_r offset_PA sources st opts = (Inr st1, opts1)"
    and "sources \<noteq> []"
  shows "\<exists>off. resolve_offset offset_r offset_PA image_PA (last sources) = Inr off \<and>
           opts1 = set_offset off opts"
  using assms
proof (induction sources arbitrary: st opts)
  case Nil
  then show ?case by simp
next
  case (Cons obj rest)
  from Cons.prems(1) obtain st2 opts2 where
    body: "calcImage_source E rebin image_PA offset_r offset_PA obj st opts = (Inr st2, opts2)" and
    tail: "calcImage_loop E rebin image_PA offset_r offset_PA rest st2 opts2 = (Inr st1, opts1)"
    by (auto split: prod.splits sum.splits)
  from calcImage_source_options [OF body] obtain off where
    off: "resolve_offset offset_r offset_PA image_PA obj = Inr off" "opts2 = set_offset off opts"
    by blast
  show ?case
  proof (cases "rest = []")
    case True
    with tail off show ?thesis by simp
  next
    case False
    from Cons.IH [OF tail False] obtain off2 where
      "resolve_offset offset_r offset_PA image_PA (last rest) = Inr off2" "opts1 = set_offset off2 opts2"
      by blast
    with off False show ?thesis by (simp add: set_offset_twice)
  qed
qed

lemma source_pass_options:
  "snd (calcImage_source E rebin image_PA offset_r offset_PA obj st opts) =
     (case resolve_offset offset_r offset_PA image_PA obj of
        Inl e \<Rightarrow> opts
      | Inr off \<Rightarrow> set_offset off opts)"
  by (simp add: calcImage_source_def Let_def split: sum.splits)

lemma calcImage_source_simulator_call:
  assumes "calcImage_source E rebin image_PA offset_r offset_PA obj st opts = (Inr st1, opts1)"
  shows "\<exists>off psf. resolve_offset offset_r offset_PA image_PA obj = Inr off \<and>
           opts1 = set_offset off opts \<and>
           calcPSF E (set_offset off opts) (spectrum obj) rebin = Inr psf"
  using assms by (auto simp add: calcImage_source_def Let_def split: sum.splits)

lemma calcImage_loop_append:
  assumes "calcImage_loop E rebin image_PA offset_r offset_PA (xs @ ys) st opts = (Inr st2, opts2)"
  shows "\<exists>st1 opts1.
           calcImage_loop E rebin image_PA offset_r offset_PA xs st opts = (Inr st1, opts1) \<and>
           calcImage_loop E rebin image_PA offset_r offset_PA ys st1 opts1 = (Inr st2, opts2)"
  using assms
proof (induction xs arbitrary: st opts)
  case Nil
  then show ?case by simp
next
  case (Cons obj xs)
  from Cons.prems obtain st3 opts3 where
    body: "calcImage_source E rebin image_PA offset_r offset_PA obj st opts = (Inr st3, opts3)" and
    tail: "calcImage_loop E rebin image_PA offset_r offset_PA (xs @ ys) st3 opts3 = (Inr st2, opts2)"
    by (auto split: prod.splits sum.splits)
  from Cons.IH [OF tail] body show ?case by simp
qed

lemma calcImage_loop_every_pass:
  assumes "calcImage_loop E rebin image_PA offset_r offset_PA sources st opts = (Inr st1, opts1)"
    and "i < length sources"
  shows "\<exists>off psf sti.
           resolve_offset offset_r offset_PA image_PA (sources ! i) = Inr off \<and>
           calcPSF E (set_offset off opts) (spectrum (sources ! i)) rebin = Inr psf \<and>
           calcImage_loop E rebin image_PA offset_r offset_PA (take (Suc i) sources) st opts
             = (Inr sti, set_offset off opts)"
proof -
  let ?pre = "take i sources" and ?obj = "sources ! i" and ?post = "drop (Suc i) sources"
  have split: "sources = ?pre @ ?obj # ?post"
    using assms(2) by (rule id_take_nth_drop)
  have pre1: "take (Suc i) sources = ?pre @ [?obj]"
    using assms(2) by (rule take_Suc_conv_app_nth)
  from assms(1) split have
    "calcImage_loop E rebin image_PA offset_r offset_PA (?pre @ (?obj # ?post)) st opts = (Inr st1, opts1)"
    by simp
  from calcImage_loop_append [OF this] obtain sta optsa where
    a: "calcImage_loop E rebin image_PA offset_r offset_PA ?pre st opts = (Inr sta, optsa)" and
    b: "calcImage_loop E rebin image_PA offset_r offset_PA (?obj # ?post) sta optsa = (Inr st1, opts1)"
    by blast
  from b obtain sti optsi where
    body: "calcImage_source E rebin image_PA offset_r offset_PA ?obj sta optsa = (Inr sti, optsi)"
    by (auto split: prod.splits sum.splits)
  from calcImage_source_simulator_call [OF body] obtain off psf where
    off: "resolve_offset offset_r offset_PA image_PA ?obj = Inr off" and
    optsi: "optsi = set_offset off optsa" and
    psf: "calcPSF E (set_offset off optsa) (spectrum ?obj) rebin = Inr psf"
    by blast
  have optsa: "set_offset off optsa = set_offset off opts"
  proof (cases "?pre = []")
    case True
    with a show ?thesis by simp
  next
    case False
    from calcImage_loop_options [OF a False] obtain offa where "optsa = set_offset offa opts"
      by blast
    then show ?thesis by (simp add: set_offset_twice)
  qed
  have "calcImage_loop E rebin image_PA offset_r offset_PA (?pre @ [?obj]) st opts
      = (Inr sti, set_offset off opts)"
  proof -
    have "\<And>xs s o1 s2 o2. calcImage_loop E rebin image_PA offset_r offset_PA xs s o1 = (Inr s2, o2) \<Longrightarrow>
        calcImage_loop E rebin image_PA offset_r offset_PA (xs @ [?obj]) s o1 =
        calcImage_loop E rebin image_PA offset_r offset_PA [?obj] s2 o2"
    proof -
      fix xs s o1 s2 o2
      show "calcImage_loop E rebin image_PA offset_r offset_PA xs s o1 = (Inr s2, o2) \<Longrightarrow>
        calcImage_loop E rebin image_PA offset_r offset_PA (xs @ [?obj]) s o1 =
        calcImage_loop E rebin image_PA offset_r offset_PA [?obj] s2 o2"
        by (induction xs arbitrary: s o1) (auto split: prod.splits sum.splits)
    qed
    from this [OF a] body optsi optsa show ?thesis by simp
  qed
  with off psf optsa pre1 show ?thesis by auto
qed

text \<open>
  Claim C10. \<^verbatim>\<open>calcImage\<close> writes the instrument's options. When it returns, every
  source of the scene has had its pass: its offset was resolved, the options after its
  pass (the loop run on the scene up to and including it) are the caller's with
  \<^verbatim>\<open>source_offset_r\<close> and \<^verbatim>\<open>source_offset_theta\<close> overwritten by that offset, and the
  simulator was called under these options. After the return the options are the
  caller's with the two keys set to the offset of the last source; nothing restores them.
  A single pass overwrites the two keys also when it raises after the offset is resolved.
\<close>

theorem calcImage_leaves_last_offset:
  assumes "result (calcImage E sources opts outfile noise rebin clobber image_PA offset_r offset_PA) = Inr img"
  shows "(\<exists>off. resolve_offset offset_r offset_PA image_PA (last sources) = Inr off \<and>
           inst_options (calcImage E sources opts outfile noise rebin clobber image_PA offset_r offset_PA)
             = (opts(''source_offset_r'' \<mapsto> fst off))(''source_offset_theta'' \<mapsto> snd off)) \<and>
         (\<forall>i<length sources. \<exists>off psf sti.
             resolve_offset offset_r offset_PA image_PA (sources ! i) = Inr off \<and>
             calcPSF E ((opts(''source_offset_r'' \<mapsto> fst off))(''source_offset_theta'' \<mapsto> snd off))
               (spectrum (sources ! i)) rebin = Inr psf \<and>
             calcImage_loop E rebin image_PA offset_r offset_PA (take (Suc i) sources) (None, None) opts
               = (Inr sti, (opts(''source_offset_r'' \<mapsto> fst off))(''source_offset_theta'' \<mapsto> snd off))) \<and>
         snd (calcImage_source E rebin image_PA offset_r offset_PA obj0 st0 opts0) =
           (case resolve_offset offset_r offset_PA image_PA obj0 of
              Inl e \<Rightarrow> opts0
            | Inr off1 \<Rightarrow> (opts0(''source_offset_r'' \<mapsto> fst off1))
                                (''source_offset_theta'' \<mapsto> snd off1))"
proof -
  obtain r opts1 where
    loop: "calcImage_loop E rebin image_PA offset_r offset_PA sources (None, None) opts = (r, opts1)"
    by (cases "calcImage_loop E rebin image_PA offset_r offset_PA sources (None, None) opts")
  with assms obtain stf where stf: "r = Inr stf"
    by (cases r) (simp_all add: calcImage_def)
  have ne: "sources \<noteq> []"
  proof
    assume "sources = []"
    with assms show False
      by (simp add: calcImage_def calcImage_finish_def split: if_splits)
  qed
  from calcImage_loop_options [OF loop [unfolded stf] ne] obtain off where
    off: "resolve_offset offset_r offset_PA image_PA (last sources) = Inr off" "opts1 = set_offset off opts"
    by blast
  have "inst_options (calcImage E sources opts outfile noise rebin clobber image_PA offset_r offset_PA) = opts1"
    using loop stf by (simp add: calcImage_def split: prod.splits)
  with off(2) have final: "inst_options (calcImage E sources opts outfile noise rebin clobber
        image_PA offset_r offset_PA)
      = (opts(''source_offset_r'' \<mapsto> fst off))(''source_offset_theta'' \<mapsto> snd off)"
    by (simp add: set_offset_def)
  from off(1) final have last_offset:
    "\<exists>off. resolve_offset offset_r offset_PA image_PA (last sources) = Inr off \<and>
           inst_options (calcImage E sources opts outfile noise rebin clobber image_PA offset_r offset_PA)
             = (opts(''source_offset_r'' \<mapsto> fst off))(''source_offset_theta'' \<mapsto> snd off)"
    by (intro exI [of _ off] conjI)
  have every: "\<forall>i<length sources. \<exists>off psf sti.
             resolve_offset offset_r offset_PA image_PA (sources ! i) = Inr off \<and>
             calcPSF E ((opts(''source_offset_r'' \<mapsto> fst off))(''source_offset_theta'' \<mapsto> snd off))
               (spectrum (sources ! i)) rebin = Inr psf \<and>
             calcImage_loop E rebin image_PA offset_r offset_PA (take (Suc i) sources) (None, None) opts
               = (Inr sti, (opts(''source_offset_r'' \<mapsto> fst off))(''source_offset_theta'' \<mapsto> snd off))"
  proof (intro allI impI)
    fix i assume "i < length sources"
    from calcImage_loop_every_pass [OF loop [unfolded stf] this]
    show "\<exists>off psf sti.
             resolve_offset offset_r offset_PA image_PA (sources ! i) = Inr off \<and>
             calcPSF E ((opts(''source_offset_r'' \<mapsto> fst off))(''source_offset_theta'' \<mapsto> snd off))
               (spectrum (sources ! i)) rebin = Inr psf \<and>
             calcImage_loop E rebin image_PA offset_r offset_PA (take (Suc i) sources) (None, None) opts
               = (Inr sti, (opts(''source_offset_r'' \<mapsto> fst off))(''source_offset_theta'' \<mapsto> snd off))"
      by (simp add: set_offset_def)
  qed
  have pass: "snd (calcImage_source E rebin image_PA offset_r offset_PA obj0 st0 opts0) =
      (case resolve_offset offset_r offset_PA image_PA obj0 of
         Inl e \<Rightarrow> opts0
       | Inr off1 \<Rightarrow> (opts0(''source_offset_r'' \<mapsto> fst off1))
                           (''source_offset_theta'' \<mapsto> snd off1))"
    by (simp add: source_pass_options set_offset_def split: sum.splits)
  from last_offset every pass show ?thesis by (intro conjI)
qed

text \<open>
  A scene of three sources: after the pass of the middle one the options hold its offset,
  and after the return they hold the offset of the last one.
\<close>

theorem calcImage_leaves_last_offset_witness:
  "(\<exists>img. result (calcImage demo_env [demo_source, demo_companion, default_source]
       [''source_offset_r'' \<mapsto> 7] None False True True 30 None (Some 0)) = Inr img) \<and>
   inst_options (calcImage demo_env [demo_source, demo_companion, default_source]
       [''source_offset_r'' \<mapsto> 7] None False True True 30 None (Some 0))
     = [''source_offset_r'' \<mapsto> 0, ''source_offset_theta'' \<mapsto> - 30] \<and>
   (\<exists>sti. calcImage_loop demo_env True 30 None (Some 0) [demo_source, demo_companion] (None, None)
       [''source_offset_r'' \<mapsto> 7]
     = (Inr sti, [''source_offset_r'' \<mapsto> 2, ''source_offset_theta'' \<mapsto> 60]))"
proof -
  let ?scene = "[demo_source, demo_companion, default_source]"
  have r: "\<exists>img. result (calcImage demo_env ?scene [''source_offset_r'' \<mapsto> 7]
       None False True True 30 None (Some 0)) = Inr img"
    by (simp add: demo_defs demo_companion_def default_source_def model_defs upt_rec)
  then obtain img where img: "result (calcImage demo_env ?scene
       [''source_offset_r'' \<mapsto> 7] None False True True 30 None (Some 0)) = Inr img" ..
  have l: "resolve_offset None (Some 0) 30 (last ?scene) = Inr (0, - 30)"
    by (simp add: resolve_offset_def default_source_def)
  have m: "resolve_offset None (Some 0) 30 (?scene ! 1) = Inr (2, 60)"
    by (simp add: resolve_offset_def demo_companion_def)
  have t: "take (Suc 1) ?scene = [demo_source, demo_companion]" by simp
  note facts = calcImage_leaves_last_offset [OF img]
  from facts l have final: "inst_options (calcImage demo_env ?scene
       [''source_offset_r'' \<mapsto> 7] None False True True 30 None (Some 0))
     = [''source_offset_r'' \<mapsto> 0, ''source_offset_theta'' \<mapsto> - 30]"
    by auto
  have "1 < length ?scene" by simp
  with facts have "\<exists>off psf sti.
      resolve_offset None (Some 0) 30 (?scene ! 1) = Inr off \<and>
      calcPSF demo_env (([''source_offset_r'' \<mapsto> 7])(''source_offset_r'' \<mapsto> fst off,
          ''source_offset_theta'' \<mapsto> snd off)) (spectrum (?scene ! 1)) True = Inr psf \<and>
      calcImage_loop demo_env True 30 None (Some 0) (take (Suc 1) ?scene) (None, None)
          [''source_offset_r'' \<mapsto> 7]
        = (Inr sti, ([''source_offset_r'' \<mapsto> 7])(''source_offset_r'' \<mapsto> fst off,
          ''source_offset_theta'' \<mapsto> snd off))"
    by blast
  with m t have middle: "\<exists>sti. calcImage_loop demo_env True 30 None (Some 0)
       [demo_source, demo_companion] (None, None) [''source_offset_r'' \<mapsto> 7]
     = (Inr sti, [''source_offset_r'' \<mapsto> 2, ''source_offset_theta'' \<mapsto> 60])"
    by auto
  from r final middle show ?thesis by (intro conjI)
qed

section \<open>The steps after the loop\<close>

text \<open>
  Claim C9. With an empty list of sources \<^verbatim>\<open>calcImage\<close> never returns a composite:
  the accumulator is still \<^verbatim>\<open>None\<close> after the loop, so the header update on
  \<^verbatim>\<open>sum_image[0]\<close> raises (or, with \<^verbatim>\<open>noise = True\<close>, the statement before it does),
  and nothing is written.
\<close>

theorem calcImage_without_sources_raises:
  "result (calcImage E [] opts outfile False rebin clobber image_PA offset_r offset_PA) =
      Inl (TypeError ''NoneType object has no attribute __getitem__'') \<and>
   result (calcImage E [] opts outfile True rebin clobber image_PA offset_r offset_PA) =
      Inl call_NotImplemented \<and>
   written (calcImage E [] opts outfile noise rebin clobber image_PA offset_r offset_PA) = None"
  by (simp add: calcImage_def calcImage_finish_def)

lemma block_mean_pixel:
  assumes "i < length d div r" and "j < length (hd d) div c" and "d \<noteq> []"
  shows "block_mean r c d ! i ! j =
           (\<Sum>a\<leftarrow>[0..<r]. \<Sum>b\<leftarrow>[0..<c]. d ! (i * r + a) ! (j * c + b)) / real (r * c)"
  using assms by (cases d) (simp_all add: block_mean_def)

lemma block_mean_shape:
  "length (block_mean r c d) = length d div r \<and>
   (\<forall>row\<in>set (block_mean r c d). length row = (case d of [] \<Rightarrow> 0 | row0 # rows \<Rightarrow> length row0) div c)"
  by (auto simp add: block_mean_def)

lemma rebin_factor_value:
  assumes "rebin_factor v = Some d"
  shows "hnum v = Some (real d) \<and> 0 < d"
proof (cases v)
  case (HInt i)
  with assms show ?thesis by (auto split: if_splits)
next
  case (HFloat y)
  with assms have
    "(if 0 < y \<and> y = real_of_int \<lfloor>y\<rfloor> then Some (nat \<lfloor>y\<rfloor>) else None) = Some d"
    by (simp only: rebin_factor.simps)
  then have y: "0 < y" "y = real_of_int \<lfloor>y\<rfloor>" "d = nat \<lfloor>y\<rfloor>"
    by (metis option.distinct(1), metis option.distinct(1), metis option.inject option.distinct(1))
  from y(1,2) have "0 < real_of_int \<lfloor>y\<rfloor>" by simp
  then have pos: "0 < \<lfloor>y\<rfloor>" by (simp only: of_int_0_less_iff)
  have "real d = real_of_int \<lfloor>y\<rfloor>"
    unfolding y(3) using pos by simp
  also have "\<dots> = y" by (rule y(2) [symmetric])
  finally have rd: "real d = y" .
  have a: "hnum v = Some (real d)"
    unfolding HFloat hnum.simps rd ..
  have b: "0 < d"
    unfolding y(3) using pos by simp
  from a b show ?thesis ..
next
  case (HStr s)
  with assms show ?thesis by simp
qed

lemma py_mul_numbers:
  assumes "hnum scl = Some x" and "hnum v = Some y"
  shows "\<exists>q. py_mul scl v = Inr q \<and> hnum q = Some (x * y)"
  using assms by (cases scl; cases v) auto

text \<open>
  Claim C8. Let the loop leave a composite with a primary and at least one more
  extension, whose primary header has a \<^verbatim>\<open>DET_SAMP\<close> above 1 that is a whole number \<open>d\<close>
  and a numeric \<^verbatim>\<open>PIXELSCL\<close>; let \<^verbatim>\<open>rebin_array\<close> be the block averaging of the
  specification, and let the output file, if one is asked for, be written. Then
  \<^verbatim>\<open>calcImage\<close> with \<^verbatim>\<open>rebin = True\<close> returns the composite without its last extension
  and with a new last one: its pixels are the primary's, block-averaged by \<open>d\<close> in both
  directions; its header is the primary's with \<^verbatim>\<open>OVERSAMP = 1\<close>, \<^verbatim>\<open>CALCSAMP\<close> the
  value of \<^verbatim>\<open>DET_SAMP\<close>, \<^verbatim>\<open>EXTNAME = DET_SAMP\<close> and \<^verbatim>\<open>PIXELSCL\<close> the primary's times
  \<open>d\<close> (and \<^verbatim>\<open>NSOURCES\<close>, set just before). The primary keeps its pixels and its pixel
  scale.
\<close>

theorem rebin_replaces_last_extension:
  assumes loop: "calcImage_loop E True image_PA offset_r offset_PA sources (None, None) opts =
                   (Inr (Some (primary # exts), eff), opts1)"
    and exts: "exts \<noteq> []"
    and samp: "hdr_get ''DET_SAMP'' (header primary) = Inr v"
    and gt: "py_gt_one v"
    and factor: "rebin_factor v = Some d"
    and scl: "hdr_get ''PIXELSCL'' (header primary) = Inr pixelscl"
    and num: "hnum pixelscl = Some x"
    and lib: "rebin_array E = rebin_array_mean"
    and out: "\<forall>path img. outfile = Some path \<longrightarrow> writeto E path clobber img = Inr ()"
  shows "\<exists>primary1 new q.
           result (calcImage E sources opts outfile False True clobber image_PA offset_r offset_PA)
             = Inr (primary1 # butlast exts @ [new]) \<and>
           data primary1 = data primary \<and>
           hdr_get ''PIXELSCL'' (header primary1) = Inr pixelscl \<and>
           hdr_get ''NSOURCES'' (header primary1) = Inr (HInt (int (length sources))) \<and>
           data new = block_mean d d (data primary) \<and>
           history (header new) = history (header primary) \<and>
           hdr_get ''OVERSAMP'' (header new) = Inr (HInt 1) \<and>
           hdr_get ''CALCSAMP'' (header new) = Inr v \<and>
           hdr_get ''EXTNAME'' (header new) = Inr (HStr ''DET_SAMP'') \<and>
           hdr_get ''PIXELSCL'' (header new) = Inr q \<and>
           hnum q = Some (x * real d) \<and>
           (\<forall>k. k \<notin> {''OVERSAMP'', ''CALCSAMP'', ''EXTNAME'', ''PIXELSCL'', ''NSOURCES''} \<longrightarrow>
                cards (header new) k = cards (header primary) k)"
proof -
  obtain e es where es: "exts = e # es" using exts by (cases exts) auto
  from rebin_factor_value [OF factor] have v: "hnum v = Some (real d)" by simp
  from py_mul_numbers [OF num v] obtain q where
    q: "py_mul pixelscl v = Inr q" "hnum q = Some (x * real d)" by blast
  have rb: "rebin_array E (data primary) (v, v) = Inr (block_mean d d (data primary))"
    by (simp add: lib rebin_array_mean_def factor)
  let ?p1 = "upd_header (hdr_update ''NSOURCES'' (HInt (int (length sources)))
               (Some ''Number of point sources in sim'')) primary"
  have samp1: "hdr_get ''DET_SAMP'' (header ?p1) = Inr v"
    using samp by (auto simp add: upd_header_def hdr_update_def hdr_get_def split: option.splits)
  have scl1: "hdr_get ''PIXELSCL'' (header ?p1) = Inr pixelscl"
    using scl by (auto simp add: upd_header_def hdr_update_def hdr_get_def split: option.splits)
  let ?h3 = "hdr_update ''EXTNAME'' (HStr ''DET_SAMP'') None
              (hdr_update ''CALCSAMP'' v (Some ''This much oversampling used in calculation'')
                (hdr_update ''OVERSAMP'' (HInt 1) (Some ''These data are rebinned to detector pixels'')
                  (header ?p1)))"
  let ?new = "\<lparr>data = block_mean d d (data primary), header = hdr_update ''PIXELSCL'' q None ?h3\<rparr>"
  have scl3: "hdr_get ''PIXELSCL'' ?h3 = Inr pixelscl"
    using scl1 by (auto simp add: hdr_update_def hdr_get_def split: option.splits)
  have step: "rebin_step E (?p1 # exts) = Inr (?p1 # butlast exts @ [?new])"
    using samp1 rb scl3 q(1)
    by (simp add: rebin_step_def es Let_def upd_header_def)
  have fin: "\<exists>primary1. fst (calcImage_finish E (length sources) outfile False True clobber
                (Some (primary # exts))) = Inr (primary1 # butlast exts @ [?new]) \<and>
              data primary1 = data primary \<and>
              hdr_get ''PIXELSCL'' (header primary1) = Inr pixelscl \<and>
              hdr_get ''NSOURCES'' (header primary1) = Inr (HInt (int (length sources)))"
  proof (cases outfile)
    case None
    then show ?thesis
      using step samp1 gt scl1
      by (simp add: calcImage_finish_def Let_def)
         (simp add: upd_header_def hdr_update_def hdr_get_def)
  next
    case (Some path)
    with out have w: "\<And>img. writeto E path clobber img = Inr ()" by simp
    show ?thesis
      using step samp1 gt scl1 Some
      by (simp add: calcImage_finish_def Let_def upd_primary_def w)
         (auto simp add: upd_header_def hdr_update_def hdr_get_def split: option.splits)
  qed
  then obtain primary1 where
    p1: "fst (calcImage_finish E (length sources) outfile False True clobber
                (Some (primary # exts))) = Inr (primary1 # butlast exts @ [?new])"
        "data primary1 = data primary"
        "hdr_get ''PIXELSCL'' (header primary1) = Inr pixelscl"
        "hdr_get ''NSOURCES'' (header primary1) = Inr (HInt (int (length sources)))"
    by blast
  have res: "result (calcImage E sources opts outfile False True clobber image_PA offset_r offset_PA)
      = Inr (primary1 # butlast exts @ [?new])"
    using loop p1(1)
    by (cases "calcImage_finish E (length sources) outfile False True clobber (Some (primary # exts))")
       (simp add: calcImage_def)
  have n1: "data ?new = block_mean d d (data primary)" by simp
  have n2: "history (header ?new) = history (header primary)"
    by (simp add: hdr_update_def upd_header_def)
  have n3: "hdr_get ''OVERSAMP'' (header ?new) = Inr (HInt 1)"
    "hdr_get ''CALCSAMP'' (header ?new) = Inr v"
    "hdr_get ''EXTNAME'' (header ?new) = Inr (HStr ''DET_SAMP'')"
    "hdr_get ''PIXELSCL'' (header ?new) = Inr q"
    by (simp_all add: hdr_update_def hdr_get_def)
  have n4: "\<forall>k. k \<notin> {''OVERSAMP'', ''CALCSAMP'', ''EXTNAME'', ''PIXELSCL'', ''NSOURCES''} \<longrightarrow>
                cards (header ?new) k = cards (header primary) k"
    by (simp add: hdr_update_def upd_header_def)
  from res p1(2-4) n1 n2 n3 q(2) n4 show ?thesis by blast
qed

theorem rebin_replaces_last_extension_witness:
  "\<exists>primary exts eff opts1 primary1 new q.
     calcImage_loop demo_env True 0 None (Some 0) [demo_source] (None, None) Map.empty =
       (Inr (Some (primary # exts), eff), opts1) \<and>
     exts \<noteq> [] \<and>
     hdr_get ''DET_SAMP'' (header primary) = Inr (HInt 2) \<and>
     py_gt_one (HInt 2) \<and>
     rebin_factor (HInt 2) = Some 2 \<and>
     hdr_get ''PIXELSCL'' (header primary) = Inr (HFloat (1/100)) \<and>
     hnum (HFloat (1/100)) = Some (1/100) \<and>
     rebin_array demo_env = rebin_array_mean \<and>
     writeto demo_env ''scene.fits'' True [primary1] = Inr () \<and>
     data primary = [[3, 6], [9, 12]] \<and>
     result (calcImage demo_env [demo_source] Map.empty (Some ''scene.fits'') False True True 0 None
         (Some 0))
       = Inr (primary1 # butlast exts @ [new]) \<and>
     data primary1 = [[3, 6], [9, 12]] \<and>
     data new = [[15/2]] \<and>
     hdr_get ''PIXELSCL'' (header new) = Inr q \<and>
     hnum q = Some (1/50)"
proof -
  have "\<exists>primary exts eff opts1.
     calcImage_loop demo_env True 0 None (Some 0) [demo_source] (None, None) Map.empty =
       (Inr (Some (primary # exts), eff), opts1) \<and>
     exts \<noteq> [] \<and>
     hdr_get ''DET_SAMP'' (header primary) = Inr (HInt 2) \<and>
     hdr_get ''PIXELSCL'' (header primary) = Inr (HFloat (1/100)) \<and>
     data primary = [[3, 6], [9, 12]]"
    by (simp add: demo_defs model_defs)
  then obtain primary exts eff opts1 where
    loop: "calcImage_loop demo_env True 0 None (Some 0) [demo_source] (None, None) Map.empty =
       (Inr (Some (primary # exts), eff), opts1)" and
    exts: "exts \<noteq> []" and
    samp: "hdr_get ''DET_SAMP'' (header primary) = Inr (HInt 2)" and
    scl: "hdr_get ''PIXELSCL'' (header primary) = Inr (HFloat (1/100))" and
    dat: "data primary = [[3, 6], [9, 12]]"
    by blast
  have gt: "py_gt_one (HInt 2)" by simp
  have factor: "rebin_factor (HInt 2) = Some 2" by simp
  have num: "hnum (HFloat (1/100)) = Some (1/100)" by simp
  have lib: "rebin_array demo_env = rebin_array_mean" by (simp add: demo_env_def)
  have out: "\<forall>path img. Some ''scene.fits'' = Some path \<longrightarrow>
      writeto demo_env path True img = Inr ()"
    by (simp add: demo_env_def)
  have w: "\<And>img. writeto demo_env ''scene.fits'' True img = Inr ()"
    by (simp add: demo_env_def)
  have mean: "block_mean 2 2 [[3, 6], [9, 12]] = [[15/2]]"
    by (simp add: block_mean_def upt_rec)
  from rebin_replaces_last_extension [OF loop exts samp gt factor scl num lib out]
  obtain primary1 new q where
    res: "result (calcImage demo_env [demo_source] Map.empty (Some ''scene.fits'') False True True 0
         None (Some 0)) = Inr (primary1 # butlast exts @ [new])" and
    p1: "data primary1 = data primary" and
    n1: "data new = block_mean 2 2 (data primary)" and
    n2: "hdr_get ''PIXELSCL'' (header new) = Inr q" and
    n3: "hnum q = Some (1/100 * real 2)"
    by (elim exE conjE) (rule that, assumption+)
  from p1 dat have p2: "data primary1 = [[3, 6], [9, 12]]" by simp
  from n1 dat mean have n4: "data new = [[15/2]]" by simp
  from n3 have n5: "hnum q = Some (1/50)" by simp
  from loop exts samp gt factor scl num lib w [of "[primary1]"] dat res p2 n4 n2 n5
  show ?thesis by blast
qed

section \<open>The unbound flux variable and the unimplemented paths\<close>

lemma scalar_source_pass_raises:
  assumes "normalization obj = Some (Number k)"
  shows "\<exists>e. fst (calcImage_source E rebin image_PA offset_r offset_PA obj (sum_image, None) opts) = Inl e"
  using assms
  by (auto simp add: calcImage_source_def apply_normalization_def provenance_def Let_def
      split: sum.splits list.splits)

text \<open>
  Claim C1 asks that the provenance entries are appended without error for a source
  with an explicit scalar normalization as for one without. The code does not:
  \<^verbatim>\<open>effstim_Jy\<close> is assigned only in the branch without a normalization, so for a first
  source with a scalar normalization the second provenance entry raises
  \<^verbatim>\<open>UnboundLocalError\<close>, once the PSF has been computed and scaled.
\<close>

theorem provenance_raises_for_explicit_scalar:
  assumes "normalization obj = Some (Number k)"
    and "resolve_offset offset_r offset_PA image_PA obj = Inr off"
    and "calcPSF E (set_offset off opts) (spectrum obj) rebin = Inr (p # exts)"
  shows "calcImage_source E rebin image_PA offset_r offset_PA obj (None, None) opts =
           (Inl (UnboundLocalError ''local variable effstim_Jy referenced before assignment''),
            set_offset off opts)"
proof (cases offset_r)
  case None
  with assms show ?thesis
    by (simp add: calcImage_source_def apply_normalization_def accumulate_def first_header_def
        provenance_def upd_primary_def Let_def)
next
  case (Some r)
  with assms(2) obtain a where "offset_PA = Some a"
    by (cases offset_PA) (simp_all add: resolve_offset_def)
  with Some assms show ?thesis
    by (simp add: calcImage_source_def apply_normalization_def accumulate_def first_header_def
        provenance_def upd_primary_def Let_def)
qed

theorem provenance_raises_for_explicit_scalar_witness:
  "normalization demo_scalar_source = Some (Number 2) \<and>
   resolve_offset None (Some 0) 0 demo_scalar_source = Inr (1/10, 0) \<and>
   calcPSF demo_env (set_offset (1/10, 0) Map.empty) (spectrum demo_scalar_source) True
     = Inr (hd demo_psf # tl demo_psf) \<and>
   calcImage_source demo_env True 0 None (Some 0) demo_scalar_source (None, None) Map.empty =
     (Inl (UnboundLocalError ''local variable effstim_Jy referenced before assignment''),
      set_offset (1/10, 0) Map.empty)"
proof -
  have a: "normalization demo_scalar_source = Some (Number 2)"
    by (simp add: demo_scalar_source_def)
  have b: "resolve_offset None (Some 0) 0 demo_scalar_source = Inr (1/10, 0)"
    by (simp add: resolve_offset_def demo_scalar_source_def)
  have c: "calcPSF demo_env (set_offset (1/10, 0) Map.empty) (spectrum demo_scalar_source) True
     = Inr (hd demo_psf # tl demo_psf)"
    by (simp add: demo_env_def demo_psf_def)
  from a b c provenance_raises_for_explicit_scalar [OF a b c] show ?thesis by blast
qed

text \<open>
  Claim C2 asks for the pixel sum of the composite of a scene with one source of scalar
  normalization \<open>k\<close>. For such a scene \<^verbatim>\<open>calcImage\<close> returns no composite, whatever the
  collaborators do.
\<close>

theorem single_scalar_source_never_returns:
  assumes "normalization obj = Some (Number k)"
  shows "\<exists>e. result (calcImage E [obj] opts outfile noise rebin clobber image_PA offset_r offset_PA)
           = Inl e"
proof -
  from scalar_source_pass_raises [OF assms]
  obtain e where "fst (calcImage_source E rebin image_PA offset_r offset_PA obj (None, None) opts) = Inl e"
    by blast
  then show ?thesis
    by (cases "calcImage_source E rebin image_PA offset_r offset_PA obj (None, None) opts")
       (simp add: calcImage_def)
qed

theorem single_scalar_source_never_returns_witness:
  "normalization demo_scalar_source = Some (Number 2) \<and>
   (\<exists>e. result (calcImage demo_env [demo_scalar_source] Map.empty None False True True 0 None (Some 0))
           = Inl e)"
proof -
  have a: "normalization demo_scalar_source = Some (Number 2)"
    by (simp add: demo_scalar_source_def)
  from a single_scalar_source_never_returns [OF a] show ?thesis by blast
qed

text \<open>
  Claim C6 asks for \<^verbatim>\<open>NSOURCES\<close> and the \<^verbatim>\<open>Added source\<close> entries of the composite of
  every scene, without a pointing offset. A scene whose first source has a scalar
  normalization, as each star of \<^verbatim>\<open>test_obssim\<close> has, gets no composite.
\<close>

theorem scalar_first_source_no_composite:
  assumes "normalization obj = Some (Number k)"
  shows "\<exists>e. result (calcImage E (obj # rest) opts outfile noise rebin clobber image_PA None offset_PA)
           = Inl e"
proof -
  from scalar_source_pass_raises [OF assms]
  obtain e where "fst (calcImage_source E rebin image_PA None offset_PA obj (None, None) opts) = Inl e"
    by blast
  then show ?thesis
    by (cases "calcImage_source E rebin image_PA None offset_PA obj (None, None) opts")
       (simp add: calcImage_def)
qed

theorem scalar_first_source_no_composite_witness:
  "normalization (hd test_sources) = Some (Number 1) \<and>
   result (calcImage demo_env (hd test_sources # tl test_sources) Map.empty
      (Some ''test_scene_F115W.fits'') False True False 0 None (Some 0))
    = Inl (UnboundLocalError ''local variable effstim_Jy referenced before assignment'')"
proof -
  have a: "normalization (hd test_sources) = Some (Number 1)"
    by (simp add: test_sources_def)
  have b: "result (calcImage demo_env (hd test_sources # tl test_sources) Map.empty
      (Some ''test_scene_F115W.fits'') False True False 0 None (Some 0))
    = Inl (UnboundLocalError ''local variable effstim_Jy referenced before assignment'')"
    using scalar_first_source_no_composite [OF a, of demo_env "tl test_sources" Map.empty
        "Some ''test_scene_F115W.fits''" False True False 0 "Some 0"]
    by (simp add: demo_defs model_defs)
  from a b show ?thesis by blast
qed

text \<open>
  Claim C5 asks for a not-implemented error on a normalization that is not a number and
  on \<^verbatim>\<open>noise = True\<close>. Both statements call \<^verbatim>\<open>NotImplemented\<close>, which is not callable:
  what is raised is a \<^verbatim>\<open>TypeError\<close>, not a \<^verbatim>\<open>NotImplementedError\<close>. With
  \<^verbatim>\<open>noise = True\<close> nothing is written.
\<close>

theorem unimplemented_paths_raise_TypeError:
  "apply_normalization E (obj\<lparr>normalization := Some (NonNumber other)\<rparr>) src_psf eff
     = Inl call_NotImplemented \<and>
   calcImage_finish E n outfile True rebin clobber sum_image = (Inl call_NotImplemented, None) \<and>
   call_NotImplemented = TypeError ''NotImplementedType object is not callable'' \<and>
   \<not> is_NotImplementedError call_NotImplemented \<and>
   result (calcImage demo_env [demo_tuple_source] Map.empty None False True True 0 None (Some 0))
     = Inl (TypeError ''NotImplementedType object is not callable'') \<and>
   result (calcImage demo_env [demo_source] Map.empty (Some ''out.fits'') True True True 0 None (Some 0))
     = Inl (TypeError ''NotImplementedType object is not callable'') \<and>
   written (calcImage demo_env [demo_source] Map.empty (Some ''out.fits'') True True True 0 None (Some 0))
     = None"
  by (simp add: apply_normalization_def calcImage_finish_def call_NotImplemented_def
      demo_env_def demo_psf_def demo_header_def demo_source_def demo_tuple_source_def
      calcImage_def calcImage_source_def resolve_offset_def set_offset_def
      accumulate_def first_header_def provenance_def added_source_entry_def upd_primary_def
      hdr_update_def add_history_def scale_def data_sum_def)

section \<open>What a returned composite records\<close>

text \<open>
  Whenever \<^verbatim>\<open>calcImage\<close> does return a composite, its primary header has \<^verbatim>\<open>NSOURCES\<close>
  equal to the number of sources, and its history entries that begin with
  \<^verbatim>\<open>Added source\<close> are those of the sources, in the order of the scene.
\<close>

lemma added_entry_begins: "begins_Added_source (added_source_entry E obj)"
  by (simp add: begins_Added_source_def added_source_entry_def)

lemma first_header_added:
  assumes "first_header E image_PA offset_r offset_PA h = Inr h1"
  shows "filter begins_Added_source (history h1) = filter begins_Added_source (history h)"
  using assms
  by (auto simp add: first_header_def Let_def add_history_def hdr_update_def
      begins_Added_source_def split: option.splits)

lemma provenance_added:
  assumes "provenance E obj eff counts off h = Inr h1"
  shows "filter begins_Added_source (history h1) =
         filter begins_Added_source (history h) @ [added_source_entry E obj]"
proof -
  from assms obtain v where "eff = Some v"
    by (cases eff) (simp_all add: provenance_def Let_def)
  with assms have "history h1 = history h @ [added_source_entry E obj,
      ''                with effstim = '' @ fmt E ''%.3g'' v @ '' Jy'',
      ''                counts in image: '' @ fmt E ''%.3g'' counts,
      ''                pos in image: '' @ fmt E ''%.3g'' (fst off)
                   @ [CHR 0x27, CHR 0x27] @ '' at '' @ fmt E ''%.1f'' (snd off) @ '' deg'']"
    by (auto simp add: provenance_def Let_def add_history_def)
  then show ?thesis
    using added_entry_begins [of E obj] by (simp add: begins_Added_source_def)
qed

lemma apply_normalization_added:
  assumes "apply_normalization E obj src_psf eff = Inr (scaled, eff1)"
  shows "added_entries scaled = added_entries src_psf \<and> scaled \<noteq> []"
  using assms
  by (auto simp add: apply_normalization_def upd_primary_def added_entries_def
      split: option.splits pynorm.splits sum.splits list.splits)

lemma accumulate_added:
  assumes "accumulate E image_PA offset_r offset_PA sum_image scaled = Inr img"
    and "added_entries scaled = []"
  shows "added_entries img = state_entries (sum_image, eff) \<and> img \<noteq> []"
  using assms
  by (auto simp add: accumulate_def added_entries_def state_entries_def
      dest: first_header_added split: option.splits list.splits sum.splits)

lemma calcImage_source_added:
  assumes clean: "clean_simulator E"
    and pass: "calcImage_source E rebin image_PA offset_r offset_PA obj st opts = (Inr st1, opts1)"
  shows "state_entries st1 = state_entries st @ [added_source_entry E obj] \<and>
         (\<exists>p exts. fst st1 = Some (p # exts))"
proof -
  from pass obtain off src_psf scaled eff1 img s srest h where
    psf: "calcPSF E (set_offset off opts) (spectrum obj) rebin = Inr src_psf" and
    nrm: "apply_normalization E obj src_psf (snd st) = Inr (scaled, eff1)" and
    acc: "accumulate E image_PA offset_r offset_PA (fst st) scaled = Inr img" and
    img: "img = s # srest" and
    prov: "provenance E obj eff1 (data_sum (data (hd scaled))) off (header s) = Inr h" and
    st1: "st1 = (Some (s\<lparr>header := h\<rparr> # srest), eff1)"
    by (auto simp add: calcImage_source_def Let_def split: sum.splits list.splits prod.splits)
  from clean psf have "added_entries src_psf = []"
    by (auto simp add: clean_simulator_def)
  with apply_normalization_added [OF nrm] have "added_entries scaled = []" by simp
  from accumulate_added [OF acc this, of "snd st"] have "added_entries img = state_entries st"
    by simp
  with img provenance_added [OF prov] st1 show ?thesis
    by (simp add: state_entries_def added_entries_def)
qed

lemma calcImage_loop_added:
  assumes clean: "clean_simulator E"
    and loop: "calcImage_loop E rebin image_PA offset_r offset_PA sources st opts = (Inr st1, opts1)"
  shows "state_entries st1 = state_entries st @ map (added_source_entry E) sources"
  using loop
proof (induction sources arbitrary: st opts)
  case Nil
  then show ?case by simp
next
  case (Cons obj rest)
  from Cons.prems obtain st2 opts2 where
    body: "calcImage_source E rebin image_PA offset_r offset_PA obj st opts = (Inr st2, opts2)" and
    tail: "calcImage_loop E rebin image_PA offset_r offset_PA rest st2 opts2 = (Inr st1, opts1)"
    by (auto split: prod.splits sum.splits)
  from calcImage_source_added [OF clean body] Cons.IH [OF tail] show ?case by simp
qed

lemma rebin_step_primary:
  assumes "rebin_step E (p # exts) = Inr img"
  shows "\<exists>exts1. img = p # exts1"
  using assms
  by (cases exts rule: rev_cases)
     (auto simp add: rebin_step_def Let_def split: sum.splits list.splits if_splits)

lemma calcImage_finish_added:
  assumes "calcImage_finish E n outfile noise rebin clobber (Some img) = (Inr img1, w)"
  shows "added_entries img1 = added_entries img \<and>
         (\<exists>p exts. img1 = p # exts \<and> hdr_get ''NSOURCES'' (header p) = Inr (HInt (int n)))"
  using assms
  by (auto simp add: calcImage_finish_def Let_def added_entries_def upd_header_def upd_primary_def
      hdr_update_def hdr_get_def
      dest!: rebin_step_primary split: if_splits list.splits sum.splits option.splits)

lemma returned_composite_counts_sources:
  assumes clean: "clean_simulator E"
    and ret: "result (calcImage E sources opts outfile noise rebin clobber image_PA offset_r offset_PA) = Inr img"
  shows "\<exists>p exts. img = p # exts \<and>
           hdr_get ''NSOURCES'' (header p) = Inr (HInt (int (length sources))) \<and>
           filter begins_Added_source (history (header p)) = map (added_source_entry E) sources"
proof -
  obtain r opts1 where
    loop: "calcImage_loop E rebin image_PA offset_r offset_PA sources (None, None) opts = (r, opts1)"
    by (cases "calcImage_loop E rebin image_PA offset_r offset_PA sources (None, None) opts")
  with ret obtain st where st: "r = Inr st"
    by (cases r) (simp_all add: calcImage_def)
  from ret loop st obtain w where
    fin: "calcImage_finish E (length sources) outfile noise rebin clobber (fst st) = (Inr img, w)"
    by (cases "calcImage_finish E (length sources) outfile noise rebin clobber (fst st)")
       (simp add: calcImage_def)
  then obtain img0 where img0: "fst st = Some img0"
    by (cases "fst st") (simp_all add: calcImage_finish_def split: if_splits)
  from calcImage_loop_added [OF clean loop [unfolded st]]
  have "added_entries img0 = map (added_source_entry E) sources"
    by (simp add: state_entries_def img0)
  with calcImage_finish_added [OF fin [unfolded img0]] show ?thesis
    by (auto simp add: added_entries_def)
qed

end
